theory Spec2Isabelle
  imports Complex_Main
begin

section \<open>Python values and exceptions\<close>

text \<open>
  The exceptions that the two scripts can meet. \<open>ConnectionError\<close>, \<open>HTTPError\<close>,
  \<open>MissingSchema\<close> and \<open>RequestsJSONDecodeError\<close> are classes of the \<open>requests\<close>
  package that derive from \<open>requests.RequestException\<close> (\<open>ConnectionError\<close> stands for
  every failure of the transport); the others are built-in classes. All of them derive
  from \<open>Exception\<close>.
\<close>

datatype pyerr =
    ConnectionError
  | HTTPError
  | RequestsJSONDecodeError
  | ValueError
  | AttributeError
  | TypeError
  | KeyError
  | IndexError
  | EOFError
  | OSError
  | MissingSchema

fun is_RequestException :: "pyerr \<Rightarrow> bool" where
  "is_RequestException ConnectionError = True"
| "is_RequestException HTTPError = True"
| "is_RequestException RequestsJSONDecodeError = True"
| "is_RequestException MissingSchema = True"
| "is_RequestException e = False"

fun is_Exception :: "pyerr \<Rightarrow> bool" where
  "is_Exception e = True"

fun is_ValueError :: "pyerr \<Rightarrow> bool" where
  "is_ValueError ValueError = True"
| "is_ValueError RequestsJSONDecodeError = True"
| "is_ValueError MissingSchema = True"
| "is_ValueError e = False"

text \<open>
  What \<open>response.json()\<close> hands to the scripts: \<open>None\<close>, booleans, numbers, strings,
  lists and dictionaries with string keys. A dictionary is the list of its items in
  insertion order. A float is held by its (finite) value.
\<close>

datatype json =
    JNull
  | JBool bool
  | JInt int
  | JFloat rat
  | JStr string
  | JArr "json list"
  | JObj "(string \<times> json) list"

section \<open>Python strings\<close>

text \<open>
  A string is a list of characters, a character one of the 256 code points from U+0000
  to U+00FF. The predicates below are \<open>str.isspace\<close>, \<open>str.isalnum\<close> and
  \<open>str.lower\<close> of Python on these code points.
\<close>

definition code_point :: "char \<Rightarrow> nat" where
  "code_point c = of_char c"

definition py_isspace :: "char \<Rightarrow> bool" where
  "py_isspace c =
     (let n = code_point c
      in (9 \<le> n \<and> n \<le> 13) \<or> (28 \<le> n \<and> n \<le> 32) \<or> n = 133 \<or> n = 160)"

definition py_isdecimal :: "char \<Rightarrow> bool" where
  "py_isdecimal c = (48 \<le> code_point c \<and> code_point c \<le> 57)"

definition py_isalnum :: "char \<Rightarrow> bool" where
  "py_isalnum c =
     (let n = code_point c
      in (48 \<le> n \<and> n \<le> 57) \<or> (65 \<le> n \<and> n \<le> 90) \<or> (97 \<le> n \<and> n \<le> 122)
         \<or> n = 170 \<or> n = 178 \<or> n = 179 \<or> n = 181 \<or> n = 185 \<or> n = 186
         \<or> (188 \<le> n \<and> n \<le> 190) \<or> (192 \<le> n \<and> n \<le> 214)
         \<or> (216 \<le> n \<and> n \<le> 246) \<or> (248 \<le> n \<and> n \<le> 255))"

definition lower_char :: "char \<Rightarrow> char" where
  "lower_char c =
     (let n = code_point c
      in if (65 \<le> n \<and> n \<le> 90) \<or> (192 \<le> n \<and> n \<le> 214) \<or> (216 \<le> n \<and> n \<le> 222)
         then char_of (n + 32) else c)"

definition py_lower :: "string \<Rightarrow> string" where
  "py_lower s = map lower_char s"

text \<open>\<open>s.isalnum()\<close> for a string of any length.\<close>

definition str_isalnum :: "string \<Rightarrow> bool" where
  "str_isalnum s = (s \<noteq> [] \<and> list_all py_isalnum s)"

text \<open>\<open>s.rstrip()\<close>: the loop that drops whitespace from the right end.\<close>

function py_rstrip :: "string \<Rightarrow> string" where
  "py_rstrip s = (if s \<noteq> [] \<and> py_isspace (last s) then py_rstrip (butlast s) else s)"
  by pat_completeness auto
termination
  by (relation "measure length") auto

declare py_rstrip.simps [simp del]

fun py_lstrip :: "string \<Rightarrow> string" where
  "py_lstrip [] = []"
| "py_lstrip (c # cs) = (if py_isspace c then py_lstrip cs else c # cs)"

definition py_strip :: "string \<Rightarrow> string" where
  "py_strip s = py_rstrip (py_lstrip s)"

text \<open>\<open>sep.join(parts)\<close> on strings.\<close>

fun join :: "string \<Rightarrow> string list \<Rightarrow> string" where
  "join sep [] = []"
| "join sep [x] = x"
| "join sep (x # y # ys) = x @ sep @ join sep (y # ys)"

text \<open>\<open>needle in haystack\<close> on strings.\<close>

fun contains :: "string \<Rightarrow> string \<Rightarrow> bool" where
  "contains needle [] = (needle = [])"
| "contains needle (c # cs) =
     (take (length needle) (c # cs) = needle \<or> contains needle cs)"

text \<open>\<open>str(n)\<close> for a natural number.\<close>

definition digit_char :: "nat \<Rightarrow> char" where
  "digit_char d = char_of (48 + d)"

fun str_nat :: "nat \<Rightarrow> string" where
  "str_nat n = (if n < 10 then [digit_char n] else str_nat (n div 10) @ [digit_char (n mod 10)])"

declare str_nat.simps [simp del]

subsection \<open>int(s)\<close>

text \<open>
  \<open>int(s)\<close> for a string: whitespace around the number is skipped (for \<open>int\<close> the
  code points 9 to 13, 32, 133 and 160), one sign is allowed, then decimal digits with
  single underscores between digits. Anything else is a \<open>ValueError\<close>. So is a number of
  more than \<open>max_str_digits\<close> digits when that interpreter setting is not 0 (it is 4300
  unless changed, and absent before Python 3.11, which is \<open>max_str_digits = 0\<close>); numbers
  of at most 640 digits are never refused.
\<close>

definition int_space :: "char \<Rightarrow> bool" where
  "int_space c =
     (let n = code_point c in (9 \<le> n \<and> n \<le> 13) \<or> n = 32 \<or> n = 133 \<or> n = 160)"

definition digit_value :: "char \<Rightarrow> nat" where
  "digit_value c = code_point c - 48"

fun int_digits :: "string \<Rightarrow> nat \<Rightarrow> nat option" where
  "int_digits [] acc = Some acc"
| "int_digits [c] acc = (if py_isdecimal c then Some (10 * acc + digit_value c) else None)"
| "int_digits (c # d # cs) acc =
     (if py_isdecimal c then int_digits (d # cs) (10 * acc + digit_value c)
      else if c = CHR ''_'' \<and> py_isdecimal d then int_digits (d # cs) acc
      else None)"

definition int_body :: "nat \<Rightarrow> string \<Rightarrow> pyerr + nat" where
  "int_body max_str_digits s =
     (case s of
        [] \<Rightarrow> Inl ValueError
      | c # cs \<Rightarrow>
          if \<not> py_isdecimal c then Inl ValueError
          else (case int_digits s 0 of
                  None \<Rightarrow> Inl ValueError
                | Some n \<Rightarrow>
                    let digits = length (filter py_isdecimal s)
                    in if 640 < digits \<and> 0 < max_str_digits \<and> max_str_digits < digits
                       then Inl ValueError else Inr n))"

definition py_int :: "nat \<Rightarrow> string \<Rightarrow> pyerr + int" where
  "py_int max_str_digits s =
     (let t = rev (dropWhile int_space (rev (dropWhile int_space s)))
      in case t of
           c # cs \<Rightarrow>
             if c = CHR ''-'' then map_sum id (\<lambda>n. - int n) (int_body max_str_digits cs)
             else if c = CHR ''+'' then map_sum id int (int_body max_str_digits cs)
             else map_sum id int (int_body max_str_digits t)
         | [] \<Rightarrow> Inl ValueError)"

section \<open>Operations on Python values\<close>

text \<open>Sequencing of steps that may raise: the first exception ends the computation.\<close>

definition and_then :: "pyerr + 'a \<Rightarrow> ('a \<Rightarrow> pyerr + 'b) \<Rightarrow> pyerr + 'b" where
  "and_then x f = (case x of Inl e \<Rightarrow> Inl e | Inr v \<Rightarrow> f v)"

text \<open>
  Iterating a Python value: a string gives its characters, a list its elements, a
  dictionary its keys; nothing else can be iterated.
\<close>

fun py_iter :: "json \<Rightarrow> pyerr + json list" where
  "py_iter (JStr s) = Inr (map (\<lambda>c. JStr [c]) s)"
| "py_iter (JArr xs) = Inr xs"
| "py_iter (JObj kvs) = Inr (map (\<lambda>kv. JStr (fst kv)) kvs)"
| "py_iter v = Inl TypeError"

text \<open>
  \<open>v.get(key, default)\<close>, \<open>v[key]\<close> for a string key, \<open>v[0]\<close>, \<open>v.lower()\<close>,
  \<open>v.items()\<close> and \<open>sep.join(v)\<close>, each with the exception that Python raises when
  \<open>v\<close> is of the wrong type. A dictionary is looked up by its first item with the key
  (the keys of a Python dictionary are distinct).
\<close>

fun dict_get :: "json \<Rightarrow> string \<Rightarrow> json \<Rightarrow> pyerr + json" where
  "dict_get (JObj kvs) key dflt =
     Inr (case map_of kvs key of Some v \<Rightarrow> v | None \<Rightarrow> dflt)"
| "dict_get v key dflt = Inl AttributeError"

fun py_subscript :: "json \<Rightarrow> string \<Rightarrow> pyerr + json" where
  "py_subscript (JObj kvs) key =
     (case map_of kvs key of Some v \<Rightarrow> Inr v | None \<Rightarrow> Inl KeyError)"
| "py_subscript v key = Inl TypeError"

fun py_first :: "json \<Rightarrow> pyerr + json" where
  "py_first (JArr []) = Inl IndexError"
| "py_first (JArr (x # xs)) = Inr x"
| "py_first (JStr []) = Inl IndexError"
| "py_first (JStr (c # cs)) = Inr (JStr [c])"
| "py_first (JObj kvs) = Inl KeyError"
| "py_first v = Inl TypeError"

fun lower_method :: "json \<Rightarrow> pyerr + string" where
  "lower_method (JStr s) = Inr (py_lower s)"
| "lower_method v = Inl AttributeError"

fun items_method :: "json \<Rightarrow> pyerr + (string \<times> json) list" where
  "items_method (JObj kvs) = Inr kvs"
| "items_method v = Inl AttributeError"

fun str_parts :: "json list \<Rightarrow> pyerr + string list" where
  "str_parts [] = Inr []"
| "str_parts (JStr s # vs) = and_then (str_parts vs) (\<lambda>ss. Inr (s # ss))"
| "str_parts (v # vs) = Inl TypeError"

definition py_join :: "string \<Rightarrow> json \<Rightarrow> pyerr + string" where
  "py_join sep v =
     and_then (py_iter v) (\<lambda>parts. and_then (str_parts parts) (\<lambda>ss. Inr (join sep ss)))"

text \<open>
  \<open>str(v)\<close>, as an f-string applies it: a string is itself; for every other value it is
  the interpreter's \<open>repr\<close>, which the model takes as a parameter.
\<close>

fun py_str :: "(json \<Rightarrow> string) \<Rightarrow> json \<Rightarrow> string" where
  "py_str repr (JStr s) = s"
| "py_str repr v = repr v"

section \<open>HTTP\<close>

text \<open>
  What \<open>requests.get\<close> can give back. A response carries its status, the
  \<open>content-length\<close> header if the server sent one, the outcome of \<open>response.json()\<close>
  (the decoded body, or the exception that decoding raises), and the body as the stream
  delivers it: the chunks that \<open>iter_content\<close> yields and, if the connection breaks, the
  exception raised after them. The network is a function from the URL and the query
  parameters to the reply.
\<close>

record response =
  status_code :: nat
  content_length :: "string option"
  json_result :: "pyerr + json"
  chunks :: "string list"
  stream_error :: "pyerr option"

datatype reply = Refused | Answered response

type_synonym network = "string \<Rightarrow> (string \<times> string) list \<Rightarrow> reply"

definition requests_get :: "network \<Rightarrow> json \<Rightarrow> (string \<times> string) list \<Rightarrow> pyerr + response" where
  "requests_get net url params =
     (case url of
        JStr u \<Rightarrow> (case net u params of Refused \<Rightarrow> Inl ConnectionError | Answered r \<Rightarrow> Inr r)
      | _ \<Rightarrow> Inl MissingSchema)"

definition raise_for_status :: "response \<Rightarrow> pyerr + unit" where
  "raise_for_status r =
     (if 400 \<le> status_code r \<and> status_code r < 600 then Inl HTTPError else Inr ())"

definition response_content :: "response \<Rightarrow> pyerr + string" where
  "response_content r =
     (case stream_error r of None \<Rightarrow> Inr (concat (chunks r)) | Some e \<Rightarrow> Inl e)"

section \<open>The console\<close>

text \<open>
  The console is the terminal the scripts talk to: what was shown, in order, and the lines
  the user will type. Rendering (colours, the drawing of the table) is the console's
  business; the model records what the program hands to it. \<open>console.input\<close> shows the
  prompt and takes the next line; at the end of the input it raises \<open>EOFError\<close>.
  \<open>Report before e after\<close> is a printed message with \<open>str(e)\<close> for the exception
  \<open>e\<close> between two texts; \<open>StatusUpdate filename percent\<close> is the progress line of a download, with the
  percentage as the exact quotient (Python computes it in binary floating point and shows
  one decimal).
\<close>

datatype event =
    Print string
  | Prompt string
  | PrintTable "(string \<times> json \<times> string \<times> string \<times> string) list"
  | Report string pyerr string
  | Status string
  | StatusUpdate string rat

record console =
  shown :: "event list"
  stdin :: "string list"

definition console_print :: "event \<Rightarrow> console \<Rightarrow> console" where
  "console_print e con = con\<lparr>shown := shown con @ [e]\<rparr>"

definition console_input :: "string \<Rightarrow> console \<Rightarrow> (pyerr + string) \<times> console" where
  "console_input prompt con =
     (case stdin con of
        [] \<Rightarrow> (Inl EOFError, console_print (Prompt prompt) con)
      | line # rest \<Rightarrow> (Inr line, (console_print (Prompt prompt) con)\<lparr>stdin := rest\<rparr>))"

section \<open>download\_books.py: the data model\<close>

text \<open>
  The dataclass \<open>BookResult\<close>. Its annotations are not enforced when the program runs:
  \<open>title\<close> and \<open>download_url\<close> receive whatever value the payload held, so they are
  Python values here; \<open>author\<close>, \<open>format\<close> and \<open>source\<close> are always built as
  strings.
\<close>

record BookResult =
  title :: json
  author :: string
  format :: string
  source :: string
  download_url :: json
  file_size :: "string option"

section \<open>download\_books.py: the two searches\<close>

definition open_library_api :: string where
  "open_library_api = ''https://openlibrary.org/search.json''"

definition project_gutenberg_api :: string where
  "project_gutenberg_api = ''https://gutendex.com/books''"

definition open_library_params :: "string \<Rightarrow> string \<Rightarrow> (string \<times> string) list" where
  "open_library_params title_in author_in =
     [(''q'', ''title:'' @ title_in @ '' author:'' @ author_in),
      (''fields'', ''title,author_name,formats'')]"

definition gutenberg_params :: "string \<Rightarrow> string \<Rightarrow> (string \<times> string) list" where
  "gutenberg_params title_in author_in = [(''search'', title_in @ '' '' @ author_in)]"

text \<open>Lines 55 to 61: the \<open>BookResult\<close> for a format of an OpenLibrary document.\<close>

definition open_library_result :: "json \<Rightarrow> json \<Rightarrow> string \<Rightarrow> pyerr + BookResult" where
  "open_library_result doc fmt lowered =
     and_then (dict_get doc ''title'' (JStr ''Unknown'')) (\<lambda>t.
     and_then (dict_get doc ''author_name'' (JArr [JStr ''Unknown''])) (\<lambda>names.
     and_then (py_join '', '' names) (\<lambda>a.
       Inr \<lparr>title = t, author = a,
            format = (if contains ''.pdf'' lowered then ''PDF'' else ''EPUB''),
            source = ''OpenLibrary'', download_url = fmt, file_size = None\<rparr>)))"

text \<open>Lines 52 to 62: the loop over the formats of one document.\<close>

fun open_library_formats :: "json \<Rightarrow> json list \<Rightarrow> BookResult list \<Rightarrow> pyerr + BookResult list" where
  "open_library_formats doc [] results = Inr results"
| "open_library_formats doc (fmt # rest) results =
     and_then (lower_method fmt) (\<lambda>lowered.
       if contains ''.pdf'' lowered \<or> contains ''.epub'' lowered
       then and_then (open_library_result doc fmt lowered) (\<lambda>r.
              open_library_formats doc rest (results @ [r]))
       else open_library_formats doc rest results)"

text \<open>Lines 50 to 62: the loop over the documents.\<close>

fun open_library_docs :: "json list \<Rightarrow> BookResult list \<Rightarrow> pyerr + BookResult list" where
  "open_library_docs [] results = Inr results"
| "open_library_docs (doc # rest) results =
     and_then (dict_get doc ''formats'' (JArr [])) (\<lambda>formats.
     and_then (py_iter formats) (\<lambda>fmts.
     and_then (open_library_formats doc fmts results) (\<lambda>results'.
       open_library_docs rest results')))"

text \<open>The body of the \<open>try\<close> of \<open>search_open_library\<close>, lines 45 to 63.\<close>

definition open_library_try :: "network \<Rightarrow> string \<Rightarrow> string \<Rightarrow> pyerr + BookResult list" where
  "open_library_try net title_in author_in =
     and_then (requests_get net (JStr open_library_api) (open_library_params title_in author_in))
       (\<lambda>resp.
     and_then (raise_for_status resp) (\<lambda>u.
     and_then (json_result resp) (\<lambda>data.
     and_then (dict_get data ''docs'' (JArr [])) (\<lambda>docs.
     and_then (py_iter docs) (\<lambda>ds. open_library_docs ds [])))))"

definition search_open_library ::
  "network \<Rightarrow> string \<Rightarrow> string \<Rightarrow> console \<Rightarrow> (pyerr + BookResult list) \<times> console" where
  "search_open_library net title_in author_in con =
     (case open_library_try net title_in author_in of
        Inr results \<Rightarrow> (Inr results, con)
      | Inl e \<Rightarrow>
          if is_Exception e
          then (Inr [], console_print (Report ''[red]Error searching OpenLibrary: '' e ''[/red]'') con)
          else (Inl e, con))"

text \<open>Lines 84 to 90: the \<open>BookResult\<close> for a format of a Gutendex book.\<close>

definition gutenberg_result :: "json \<Rightarrow> string \<Rightarrow> json \<Rightarrow> string \<Rightarrow> pyerr + BookResult" where
  "gutenberg_result book fmt_type url lowered =
     and_then (dict_get book ''title'' (JStr ''Unknown'')) (\<lambda>t.
     and_then (dict_get book ''authors'' (JArr [JObj [(''name'', JStr ''Unknown'')]])) (\<lambda>authors.
     and_then (py_first authors) (\<lambda>first.
     and_then (dict_get first ''name'' JNull) (\<lambda>name.
     and_then (py_join '', '' name) (\<lambda>a.
       Inr \<lparr>title = t, author = a,
            format = (if contains ''pdf'' lowered then ''PDF'' else ''EPUB''),
            source = ''Project Gutenberg'', download_url = url, file_size = None\<rparr>)))))"

fun gutenberg_formats ::
  "json \<Rightarrow> (string \<times> json) list \<Rightarrow> BookResult list \<Rightarrow> pyerr + BookResult list" where
  "gutenberg_formats book [] results = Inr results"
| "gutenberg_formats book ((fmt_type, url) # rest) results =
     (let lowered = py_lower fmt_type
      in if contains ''pdf'' lowered \<or> contains ''epub'' lowered
         then and_then (gutenberg_result book fmt_type url lowered) (\<lambda>r.
                gutenberg_formats book rest (results @ [r]))
         else gutenberg_formats book rest results)"

fun gutenberg_books :: "json list \<Rightarrow> BookResult list \<Rightarrow> pyerr + BookResult list" where
  "gutenberg_books [] results = Inr results"
| "gutenberg_books (book # rest) results =
     and_then (dict_get book ''formats'' (JObj [])) (\<lambda>formats.
     and_then (items_method formats) (\<lambda>fmts.
     and_then (gutenberg_formats book fmts results) (\<lambda>results'.
       gutenberg_books rest results')))"

definition gutenberg_try :: "network \<Rightarrow> string \<Rightarrow> string \<Rightarrow> pyerr + BookResult list" where
  "gutenberg_try net title_in author_in =
     and_then (requests_get net (JStr project_gutenberg_api) (gutenberg_params title_in author_in))
       (\<lambda>resp.
     and_then (raise_for_status resp) (\<lambda>u.
     and_then (json_result resp) (\<lambda>data.
     and_then (dict_get data ''results'' (JArr [])) (\<lambda>books.
     and_then (py_iter books) (\<lambda>bs. gutenberg_books bs [])))))"

definition search_project_gutenberg ::
  "network \<Rightarrow> string \<Rightarrow> string \<Rightarrow> console \<Rightarrow> (pyerr + BookResult list) \<times> console" where
  "search_project_gutenberg net title_in author_in con =
     (case gutenberg_try net title_in author_in of
        Inr results \<Rightarrow> (Inr results, con)
      | Inl e \<Rightarrow>
          if is_Exception e
          then (Inr [], console_print (Report ''[red]Error searching Project Gutenberg: '' e ''[/red]'') con)
          else (Inl e, con))"

section \<open>download\_books.py: removing duplicates in main\<close>

text \<open>
  \<open>{r.download_url: r for r in results}\<close> hashes every key. Lists and dictionaries are
  unhashable (\<open>TypeError\<close>); \<open>True\<close>, \<open>1\<close> and \<open>1.0\<close> are one key. \<open>hash_key\<close>
  gives the representative of a key under Python's equality.
\<close>

fun hash_key :: "json \<Rightarrow> pyerr + json" where
  "hash_key (JArr xs) = Inl TypeError"
| "hash_key (JObj kvs) = Inl TypeError"
| "hash_key (JBool b) = Inr (JInt (if b then 1 else 0))"
| "hash_key (JFloat q) = Inr (if q = of_int \<lfloor>q\<rfloor> then JInt \<lfloor>q\<rfloor> else JFloat q)"
| "hash_key v = Inr v"

text \<open>
  \<open>d[k] = v\<close> on an insertion-ordered dictionary: an existing key keeps its place and
  takes the new value, a new key goes to the end.
\<close>

fun dict_setitem :: "('k \<times> 'v) list \<Rightarrow> 'k \<Rightarrow> 'v \<Rightarrow> ('k \<times> 'v) list" where
  "dict_setitem [] k v = [(k, v)]"
| "dict_setitem ((k', v') # d) k v =
     (if k' = k then (k', v) # d else (k', v') # dict_setitem d k v)"

definition dict_values :: "('k \<times> 'v) list \<Rightarrow> 'v list" where
  "dict_values d = map snd d"

text \<open>The dictionary comprehension of line 181, run over \<open>results\<close> from left to right.\<close>

fun dict_comprehension ::
  "BookResult list \<Rightarrow> (json \<times> BookResult) list \<Rightarrow> pyerr + (json \<times> BookResult) list" where
  "dict_comprehension [] d = Inr d"
| "dict_comprehension (r # rs) d =
     (case hash_key (download_url r) of
        Inl e \<Rightarrow> Inl e
      | Inr k \<Rightarrow> dict_comprehension rs (dict_setitem d k r))"

definition unique_results :: "BookResult list \<Rightarrow> pyerr + BookResult list" where
  "unique_results results =
     (case dict_comprehension results [] of
        Inl e \<Rightarrow> Inl e
      | Inr d \<Rightarrow> Inr (dict_values d))"

text \<open>
  Lines 176 to 181: \<open>results\<close> starts empty, is extended by each source's list in query
  order, and is then deduplicated. \<open>main\<close> has two sources.
\<close>

definition extend_all :: "BookResult list list \<Rightarrow> BookResult list" where
  "extend_all sources = foldl (\<lambda>results s. results @ s) [] sources"

definition aggregate :: "BookResult list list \<Rightarrow> pyerr + BookResult list" where
  "aggregate sources = unique_results (extend_all sources)"

definition main_unique_results :: "BookResult list \<Rightarrow> BookResult list \<Rightarrow> pyerr + BookResult list" where
  "main_unique_results open_library gutenberg = aggregate [open_library, gutenberg]"

text \<open>Two entries have equal \<open>download_url\<close> when Python's \<open>==\<close> holds of the two keys.\<close>

definition same_url :: "BookResult \<Rightarrow> BookResult \<Rightarrow> bool" where
  "same_url a b = (hash_key (download_url a) = hash_key (download_url b))"

text \<open>Two hits for the same file, one from each catalogue.\<close>

definition emma_open_library :: BookResult where
  "emma_open_library =
     \<lparr>title = JStr ''Emma'', author = ''Jane Austen'', format = ''PDF'',
      source = ''OpenLibrary'', download_url = JStr ''http://example.org/emma.pdf'',
      file_size = None\<rparr>"

definition emma_gutenberg :: BookResult where
  "emma_gutenberg =
     \<lparr>title = JStr ''Emma'', author = ''J, a, n, e,  , A, u, s, t, e, n'', format = ''PDF'',
      source = ''Project Gutenberg'', download_url = JStr ''http://example.org/emma.pdf'',
      file_size = None\<rparr>"

section \<open>download\_books.py: display\_results\<close>

definition choice_prompt :: string where
  "choice_prompt =
     CHR 0x0A # ''[bold]Enter the number of the book to download (or 'q' to quit): [/bold]''"

definition invalid_number :: event where
  "invalid_number = Print ''[red]Invalid number. Please try again.[/red]''"

definition not_a_number :: event where
  "not_a_number = Print ''[red]Please enter a valid number.[/red]''"

definition no_results :: event where
  "no_results = Print ''[yellow]No results found.[/yellow]''"

text \<open>
  The \<open>while True\<close> loop of lines 153 to 164. Each round takes one line of input, so the
  recursion is on the lines still to come; when they run out, \<open>console.input\<close> raises
  \<open>EOFError\<close>, which nothing in \<open>display_results\<close> catches.
\<close>

function choice_loop ::
  "nat \<Rightarrow> BookResult list \<Rightarrow> console \<Rightarrow> (pyerr + BookResult option) \<times> console" where
  "choice_loop max_str_digits results con =
     (case console_input choice_prompt con of
        (Inl e, con1) \<Rightarrow> (Inl e, con1)
      | (Inr choice, con1) \<Rightarrow>
          if py_lower choice = ''q'' then (Inr None, con1)
          else (case py_int max_str_digits choice of
                  Inr n \<Rightarrow>
                    let choice_idx = n - 1
                    in if 0 \<le> choice_idx \<and> choice_idx < int (length results)
                       then (Inr (Some (results ! nat choice_idx)), con1)
                       else choice_loop max_str_digits results (console_print invalid_number con1)
                | Inl e \<Rightarrow>
                    if is_ValueError e
                    then choice_loop max_str_digits results (console_print not_a_number con1)
                    else (Inl e, con1)))"
  by pat_completeness auto
termination
  by (relation "measure (\<lambda>(m, results, con). length (stdin con))")
     (auto simp: console_input_def console_print_def split: list.splits)

declare choice_loop.simps [simp del]

definition table_rows :: "BookResult list \<Rightarrow> (string \<times> json \<times> string \<times> string \<times> string) list" where
  "table_rows results =
     map (\<lambda>(idx, result). (str_nat idx, title result, author result, format result, source result))
       (zip [1 ..< Suc (length results)] results)"

definition display_results ::
  "nat \<Rightarrow> BookResult list \<Rightarrow> console \<Rightarrow> (pyerr + BookResult option) \<times> console" where
  "display_results max_str_digits results con =
     (if results = [] then (Inr None, console_print no_results con)
      else choice_loop max_str_digits results (console_print (PrintTable (table_rows results)) con))"

text \<open>
  The kinds of input line: the quit token (\<open>q\<close> in either case); an accepted number (an
  integer between 1 and the length of the list); everything else is rejected, with the
  message that the loop shows for it.
\<close>

definition quit_token :: "string \<Rightarrow> bool" where
  "quit_token choice = (py_lower choice = ''q'')"

definition accepted :: "nat \<Rightarrow> BookResult list \<Rightarrow> string \<Rightarrow> bool" where
  "accepted m results choice =
     (\<not> quit_token choice \<and>
      (case py_int m choice of
         Inr n \<Rightarrow> 1 \<le> n \<and> n \<le> int (length results)
       | Inl e \<Rightarrow> False))"

definition rejected :: "nat \<Rightarrow> BookResult list \<Rightarrow> string \<Rightarrow> bool" where
  "rejected m results choice = (\<not> quit_token choice \<and> \<not> accepted m results choice)"

definition rejection :: "nat \<Rightarrow> string \<Rightarrow> event" where
  "rejection m choice =
     (case py_int m choice of Inr n \<Rightarrow> invalid_number | Inl e \<Rightarrow> not_a_number)"

definition reprompts :: "nat \<Rightarrow> string list \<Rightarrow> event list" where
  "reprompts m bad = concat (map (\<lambda>choice. [Prompt choice_prompt, rejection m choice]) bad)"

definition empty_console :: console where
  "empty_console = \<lparr>shown = [], stdin = []\<rparr>"

section \<open>download\_books.py: download\_book\<close>

text \<open>
  Line 104: the generator keeps \<open>c\<close> when \<open>c.isalnum() or c in (' ', '-', '_')\<close>; only a
  string has \<open>isalnum\<close>. The kept pieces are joined and \<open>rstrip\<close> is applied.
\<close>

fun safe_parts :: "json list \<Rightarrow> pyerr + string list" where
  "safe_parts [] = Inr []"
| "safe_parts (JStr c # cs) =
     and_then (safe_parts cs) (\<lambda>kept.
       Inr (if str_isalnum c \<or> c \<in> set [[CHR '' ''], [CHR ''-''], [CHR ''_'']]
            then c # kept else kept))"
| "safe_parts (v # cs) = Inl AttributeError"

definition safe_title :: "json \<Rightarrow> pyerr + string" where
  "safe_title t =
     and_then (py_iter t) (\<lambda>cs.
     and_then (safe_parts cs) (\<lambda>kept. Inr (py_rstrip (join [] kept))))"

definition download_filename :: "BookResult \<Rightarrow> pyerr + string" where
  "download_filename book_result =
     and_then (safe_title (title book_result)) (\<lambda>t.
       Inr (t @ ''.'' @ py_lower (format book_result)))"

text \<open>\<open>os.path.join\<close> of two parts, as on POSIX.\<close>

definition os_path_join :: "string \<Rightarrow> string \<Rightarrow> string" where
  "os_path_join a b =
     (if b \<noteq> [] \<and> hd b = CHR ''/'' then b
      else if a = [] \<or> last a = CHR ''/'' then a @ b
      else a @ ''/'' @ b)"

text \<open>
  Lines 114 to 120: every non-empty chunk is written, counted, and reported as a
  percentage of \<open>total_size\<close>.
\<close>

fun iter_chunks ::
  "string \<Rightarrow> int \<Rightarrow> string list \<Rightarrow> int \<Rightarrow> string \<Rightarrow> event list \<Rightarrow> int \<times> string \<times> event list" where
  "iter_chunks filename total_size [] downloaded written evs = (downloaded, written, evs)"
| "iter_chunks filename total_size (chunk # rest) downloaded written evs =
     (if chunk \<noteq> [] then
        let downloaded' = downloaded + int (length chunk);
            percent = (of_int downloaded' / of_int total_size) * 100
        in iter_chunks filename total_size rest downloaded' (written @ chunk)
             (evs @ [StatusUpdate filename percent])
      else iter_chunks filename total_size rest downloaded written evs)"

text \<open>
  The files on disk are a map from path to contents; \<open>can_open\<close> says for which paths
  \<open>open(path, 'wb')\<close> succeeds. Opening truncates the file, so what was written before
  an exception stays on disk.
\<close>

type_synonym files = "string \<rightharpoonup> string"

definition downloading :: "string \<Rightarrow> event" where
  "downloading filename = Status (''[bold green]Downloading '' @ filename @ ''...'')"

definition downloaded_to :: "string \<Rightarrow> event" where
  "downloaded_to filepath =
     Print (''[green]Successfully downloaded to: '' @ filepath @ ''[/green]'')"

definition download_try ::
  "nat \<Rightarrow> string \<Rightarrow> (string \<Rightarrow> bool) \<Rightarrow> network \<Rightarrow> BookResult \<Rightarrow> console \<Rightarrow> files
     \<Rightarrow> (pyerr + unit) \<times> console \<times> files" where
  "download_try m download_folder can_open net book_result con fs =
     (case requests_get net (download_url book_result) [] of
        Inl e \<Rightarrow> (Inl e, con, fs)
      | Inr resp \<Rightarrow>
     (case raise_for_status resp of
        Inl e \<Rightarrow> (Inl e, con, fs)
      | Inr u \<Rightarrow>
     (case download_filename book_result of
        Inl e \<Rightarrow> (Inl e, con, fs)
      | Inr filename \<Rightarrow>
     (let filepath = os_path_join download_folder filename in
      case (case content_length resp of None \<Rightarrow> Inr 0 | Some h \<Rightarrow> py_int m h) of
        Inl e \<Rightarrow> (Inl e, con, fs)
      | Inr total_size \<Rightarrow>
          if \<not> can_open filepath then (Inl OSError, con, fs)
          else
            let con1 = console_print (downloading filename) con
            in if total_size = 0 then
                 (case response_content resp of
                    Inl e \<Rightarrow> (Inl e, con1, fs(filepath \<mapsto> []))
                  | Inr body \<Rightarrow>
                      (Inr (), console_print (downloaded_to filepath) con1,
                       fs(filepath \<mapsto> body)))
               else
                 (case iter_chunks filename total_size (chunks resp) 0 [] [] of
                    (downloaded, written, evs) \<Rightarrow>
                      let con2 = con1\<lparr>shown := shown con1 @ evs\<rparr> in
                      (case stream_error resp of
                         Some e \<Rightarrow> (Inl e, con2, fs(filepath \<mapsto> written))
                       | None \<Rightarrow>
                           (Inr (), console_print (downloaded_to filepath) con2,
                            fs(filepath \<mapsto> written))))))))"

definition download_book ::
  "nat \<Rightarrow> string \<Rightarrow> (string \<Rightarrow> bool) \<Rightarrow> network \<Rightarrow> BookResult \<Rightarrow> console \<Rightarrow> files
     \<Rightarrow> (pyerr + bool) \<times> console \<times> files" where
  "download_book m download_folder can_open net book_result con fs =
     (case download_try m download_folder can_open net book_result con fs of
        (Inr u, con', fs') \<Rightarrow> (Inr True, con', fs')
      | (Inl e, con', fs') \<Rightarrow>
          if is_Exception e
          then (Inr False, console_print (Report ''[red]Error downloading book: '' e ''[/red]'') con', fs')
          else (Inl e, con', fs'))"

text \<open>The percentages among the events shown.\<close>

fun progress_values :: "event list \<Rightarrow> rat list" where
  "progress_values [] = []"
| "progress_values (StatusUpdate filename percent # evs) = percent # progress_values evs"
| "progress_values (e # evs) = progress_values evs"

text \<open>
  The file name as the specification words it: every character that is not alphanumeric,
  a space, a hyphen or an underscore is removed from the title, trailing whitespace is
  trimmed, and a period and the lower-case format are appended.
\<close>

definition spec_removed :: "char \<Rightarrow> bool" where
  "spec_removed c =
     (\<not> py_isalnum c \<and> c \<noteq> CHR '' '' \<and> c \<noteq> CHR ''-'' \<and> c \<noteq> CHR ''_'')"

definition spec_trim_trailing :: "string \<Rightarrow> string" where
  "spec_trim_trailing s = rev (dropWhile py_isspace (rev s))"

definition spec_filename :: "string \<Rightarrow> string \<Rightarrow> string" where
  "spec_filename t fmt =
     spec_trim_trailing (filter (\<lambda>c. \<not> spec_removed c) t) @ ''.'' @ py_lower fmt"

text \<open>A response of 16384 bytes in two chunks of 8192.\<close>

definition sample_response :: response where
  "sample_response =
     \<lparr>status_code = 200, content_length = Some ''16384'',
      json_result = Inl RequestsJSONDecodeError,
      chunks = [replicate 8192 CHR ''a'', replicate 8192 CHR ''b''],
      stream_error = None\<rparr>"

section \<open>get\_book\_links.py\<close>

text \<open>
  The second script talks to the terminal with \<open>print\<close> and \<open>input\<close>. Its state is
  what was printed, the lines still to be typed, and the requests sent so far (URL and
  query parameters), in order.
\<close>

record session =
  printed :: "event list"
  keyboard :: "string list"
  sent :: "(string \<times> (string \<times> string) list) list"

definition py_print :: "event \<Rightarrow> session \<Rightarrow> session" where
  "py_print e s = s\<lparr>printed := printed s @ [e]\<rparr>"

definition py_input :: "string \<Rightarrow> session \<Rightarrow> (pyerr + string) \<times> session" where
  "py_input prompt s =
     (case keyboard s of
        [] \<Rightarrow> (Inl EOFError, py_print (Prompt prompt) s)
      | line # rest \<Rightarrow> (Inr line, (py_print (Prompt prompt) s)\<lparr>keyboard := rest\<rparr>))"

definition send :: "string \<Rightarrow> (string \<times> string) list \<Rightarrow> session \<Rightarrow> session" where
  "send url params s = s\<lparr>sent := sent s @ [(url, params)]\<rparr>"

text \<open>A list comprehension whose element expression may raise.\<close>

fun comprehension :: "(json \<Rightarrow> pyerr + json) \<Rightarrow> json list \<Rightarrow> pyerr + json list" where
  "comprehension f [] = Inr []"
| "comprehension f (x # xs) =
     and_then (f x) (\<lambda>y. and_then (comprehension f xs) (\<lambda>ys. Inr (y # ys)))"

definition google_books_api :: string where
  "google_books_api = ''https://www.googleapis.com/books/v1/volumes''"

definition google_books_params :: "string \<Rightarrow> string \<Rightarrow> (string \<times> string) list" where
  "google_books_params book_name author_name =
     [(''q'', ''intitle:'' @ book_name @ ''+inauthor:'' @ author_name), (''maxResults'', ''5'')]"

text \<open>Lines 18 to 22: the dictionary built for one item of the Google Books response.\<close>

definition google_books_entry :: "json \<Rightarrow> pyerr + json" where
  "google_books_entry book =
     and_then (py_subscript book ''volumeInfo'') (\<lambda>info.
     and_then (dict_get info ''title'' JNull) (\<lambda>t.
     and_then (py_subscript book ''volumeInfo'') (\<lambda>info'.
     and_then (dict_get info' ''authors'' (JArr [])) (\<lambda>a.
     and_then (py_subscript book ''accessInfo'') (\<lambda>access.
     and_then (dict_get access ''webReaderLink'' (JStr ''N/A'')) (\<lambda>link.
       Inr (JObj [(''title'', t), (''authors'', a), (''download_link'', link)])))))))"

definition google_books_try :: "network \<Rightarrow> string \<Rightarrow> string \<Rightarrow> pyerr + json list" where
  "google_books_try net book_name author_name =
     and_then (requests_get net (JStr google_books_api) (google_books_params book_name author_name))
       (\<lambda>resp.
     and_then (raise_for_status resp) (\<lambda>u.
     and_then (json_result resp) (\<lambda>data.
     and_then (dict_get data ''items'' (JArr [])) (\<lambda>items.
     and_then (py_iter items) (\<lambda>books. comprehension google_books_entry books)))))"

definition search_google_books ::
  "network \<Rightarrow> string \<Rightarrow> string \<Rightarrow> session \<Rightarrow> (pyerr + json list) \<times> session" where
  "search_google_books net book_name author_name s =
     (let s1 = send google_books_api (google_books_params book_name author_name) s
      in case google_books_try net book_name author_name of
           Inr books \<Rightarrow> (Inr books, s1)
         | Inl e \<Rightarrow>
             if is_RequestException e
             then (Inr [], py_print (Report ''Error fetching data from Google Books: '' e []) s1)
             else (Inl e, s1))"

definition open_library_params_gbl :: "string \<Rightarrow> string \<Rightarrow> (string \<times> string) list" where
  "open_library_params_gbl book_name author_name = [(''title'', book_name), (''author'', author_name)]"

text \<open>Lines 41 to 45: the dictionary built for one document of the Open Library response.\<close>

definition open_library_entry :: "(json \<Rightarrow> string) \<Rightarrow> json \<Rightarrow> pyerr + json" where
  "open_library_entry repr book =
     and_then (dict_get book ''title'' JNull) (\<lambda>t.
     and_then (dict_get book ''author_name'' (JArr [])) (\<lambda>a.
     and_then (dict_get book ''key'' JNull) (\<lambda>k.
       Inr (JObj [(''title'', t), (''authors'', a),
                  (''download_link'', JStr (''https://openlibrary.org'' @ py_str repr k))]))))"

definition open_library_try_gbl ::
  "network \<Rightarrow> (json \<Rightarrow> string) \<Rightarrow> string \<Rightarrow> string \<Rightarrow> pyerr + json list" where
  "open_library_try_gbl net repr book_name author_name =
     and_then (requests_get net (JStr open_library_api) (open_library_params_gbl book_name author_name))
       (\<lambda>resp.
     and_then (raise_for_status resp) (\<lambda>u.
     and_then (json_result resp) (\<lambda>data.
     and_then (dict_get data ''docs'' (JArr [])) (\<lambda>docs.
     and_then (py_iter docs) (\<lambda>books. comprehension (open_library_entry repr) books)))))"

definition search_open_library_gbl ::
  "network \<Rightarrow> (json \<Rightarrow> string) \<Rightarrow> string \<Rightarrow> string \<Rightarrow> session \<Rightarrow> (pyerr + json list) \<times> session" where
  "search_open_library_gbl net repr book_name author_name s =
     (let s1 = send open_library_api (open_library_params_gbl book_name author_name) s
      in case open_library_try_gbl net repr book_name author_name of
           Inr books \<Rightarrow> (Inr books, s1)
         | Inl e \<Rightarrow>
             if is_RequestException e
             then (Inr [], py_print (Report ''Error fetching data from Open Library: '' e []) s1)
             else (Inl e, s1))"

text \<open>Lines 76 to 80: the listing of the books found.\<close>

fun print_books :: "(json \<Rightarrow> string) \<Rightarrow> nat \<Rightarrow> json list \<Rightarrow> session \<Rightarrow> (pyerr + unit) \<times> session" where
  "print_books repr idx [] s = (Inr (), s)"
| "print_books repr idx (book # rest) s =
     (case and_then (py_subscript book ''title'') (\<lambda>t.
           and_then (py_subscript book ''authors'') (\<lambda>names.
           and_then (py_join '', '' names) (\<lambda>authors.
           and_then (py_subscript book ''download_link'') (\<lambda>download_link.
             Inr (str_nat idx @ ''. '' @ py_str repr t @ '' by '' @ authors
                  @ [CHR 0x0A] @ ''   Download/Read Link: '' @ py_str repr download_link
                  @ [CHR 0x0A]))))) of
        Inl e \<Rightarrow> (Inl e, s)
      | Inr line \<Rightarrow> print_books repr (Suc idx) rest (py_print (Print line) s))"

definition welcome_message :: event where
  "welcome_message = Print ''Welcome to the Book Fetcher!''"

definition book_name_prompt :: string where
  "book_name_prompt = ''Enter the book name: ''"

definition author_name_prompt :: string where
  "author_name_prompt = ''Enter the author's name: ''"

definition both_required :: event where
  "both_required = Print ''Both book name and author name are required.''"

definition fetch_books :: "network \<Rightarrow> (json \<Rightarrow> string) \<Rightarrow> session \<Rightarrow> (pyerr + unit) \<times> session" where
  "fetch_books net repr s =
     (case py_input book_name_prompt (py_print welcome_message s) of
        (Inl e, s1) \<Rightarrow> (Inl e, s1)
      | (Inr line1, s1) \<Rightarrow>
     (let book_name = py_strip line1 in
      case py_input author_name_prompt s1 of
        (Inl e, s2) \<Rightarrow> (Inl e, s2)
      | (Inr line2, s2) \<Rightarrow>
     (let author_name = py_strip line2 in
      if book_name = [] \<or> author_name = [] then (Inr (), py_print both_required s2)
      else
        case search_google_books net book_name author_name
               (py_print (Print ''Fetching books from Google Books...'') s2) of
          (Inl e, s3) \<Rightarrow> (Inl e, s3)
        | (Inr google_books, s3) \<Rightarrow>
        (case search_open_library_gbl net repr book_name author_name
               (py_print (Print ''Fetching books from Open Library...'')
                 (py_print (Print (''Found '' @ str_nat (length google_books)
                                   @ '' books on Google Books.'')) s3)) of
          (Inl e, s4) \<Rightarrow> (Inl e, s4)
        | (Inr open_library_books, s4) \<Rightarrow>
            let s5 = py_print (Print (''Found '' @ str_nat (length open_library_books)
                                      @ '' books on Open Library.'')) s4;
                all_books = google_books @ open_library_books
            in if all_books = [] then (Inr (), py_print (Print ''No books found for your query.'') s5)
               else print_books repr 1 all_books
                      (py_print (Print (CHR 0x0A # ''Books found:'')) s5)))))"

section \<open>Notions used to state the properties of the searches\<close>

text \<open>
  A request has failed when the network refused it, when the status is one that
  \<open>raise_for_status\<close> rejects, or when decoding the body raises an exception of the
  kind \<open>caught\<close>.
\<close>

fun request_failed :: "(pyerr \<Rightarrow> bool) \<Rightarrow> reply \<Rightarrow> bool" where
  "request_failed caught Refused = True"
| "request_failed caught (Answered r) =
     ((400 \<le> status_code r \<and> status_code r < 600)
      \<or> (case json_result r of Inl e \<Rightarrow> caught e | Inr data \<Rightarrow> False))"

text \<open>The decoded body of a reply that passes \<open>raise_for_status\<close>, if there is one.\<close>

fun payload :: "reply \<Rightarrow> json option" where
  "payload Refused = None"
| "payload (Answered r) =
     (if 400 \<le> status_code r \<and> status_code r < 600 then None
      else case json_result r of Inl e \<Rightarrow> None | Inr data \<Rightarrow> Some data)"

text \<open>The elements that a loop over \<open>data.get(key, [])\<close> visits.\<close>

definition entries :: "string \<Rightarrow> json \<Rightarrow> json list" where
  "entries key data =
     (case dict_get data key (JArr []) of
        Inr v \<Rightarrow> (case py_iter v of Inr xs \<Rightarrow> xs | Inl e \<Rightarrow> [])
      | Inl e \<Rightarrow> [])"

definition payload_entries :: "string \<Rightarrow> reply \<Rightarrow> json list" where
  "payload_entries key r = (case payload r of None \<Rightarrow> [] | Some data \<Rightarrow> entries key data)"

text \<open>
  Every format of every document of an OpenLibrary payload, and every item (format name
  and URL) of the formats of every book of a Gutendex payload, in payload order.
\<close>

definition open_library_formats_of :: "reply \<Rightarrow> json list" where
  "open_library_formats_of r = concat (map (entries ''formats'') (payload_entries ''docs'' r))"

definition gutenberg_formats_of :: "reply \<Rightarrow> (string \<times> json) list" where
  "gutenberg_formats_of r =
     concat (map (\<lambda>book. case dict_get book ''formats'' (JObj []) of
                            Inr (JObj fmts) \<Rightarrow> fmts
                          | _ \<Rightarrow> [])
                 (payload_entries ''results'' r))"

text \<open>
  A string names a format when, in lower case, it contains the marker for PDF or the
  marker for EPUB; its label is PDF when it contains the marker for PDF.
\<close>

definition names_format :: "string \<Rightarrow> string \<Rightarrow> string \<Rightarrow> bool" where
  "names_format pdf epub s = (contains pdf (py_lower s) \<or> contains epub (py_lower s))"

definition format_label :: "string \<Rightarrow> string \<Rightarrow> string" where
  "format_label pdf s = (if contains pdf (py_lower s) then ''PDF'' else ''EPUB'')"

definition url_names_format :: "json \<Rightarrow> bool" where
  "url_names_format v = (case v of JStr u \<Rightarrow> names_format ''.pdf'' ''.epub'' u | _ \<Rightarrow> False)"

definition url_label :: "json \<Rightarrow> string" where
  "url_label v = (case v of JStr u \<Rightarrow> format_label ''.pdf'' u | _ \<Rightarrow> ''EPUB'')"

text \<open>Sample replies.\<close>

definition ok_response :: "json \<Rightarrow> response" where
  "ok_response data =
     \<lparr>status_code = 200, content_length = None, json_result = Inr data, chunks = [],
      stream_error = None\<rparr>"

definition unreachable :: network where
  "unreachable url params = Refused"

definition empty_session :: session where
  "empty_session = \<lparr>printed = [], keyboard = [], sent = []\<rparr>"

text \<open>A Google Books item without \<open>volumeInfo\<close>.\<close>

definition volume_without_info :: network where
  "volume_without_info url params =
     Answered (ok_response (JObj [(''items'', JArr [JObj [(''kind'', JStr ''books#volume'')]])]))"

text \<open>A Google Books item that names no file format at all.\<close>

definition emma_volume :: json where
  "emma_volume =
     JObj [(''kind'', JStr ''books#volume''),
           (''volumeInfo'', JObj [(''title'', JStr ''Emma''),
                                  (''authors'', JArr [JStr ''Jane Austen''])]),
           (''accessInfo'', JObj [(''webReaderLink'',
                                   JStr ''http://play.google.com/books/reader?id=emma'')])]"

definition google_emma :: network where
  "google_emma url params = Answered (ok_response (JObj [(''items'', JArr [emma_volume])]))"

text \<open>The Gutendex entry of the specification, with an HTML and an EPUB format.\<close>

definition gutendex_pride :: network where
  "gutendex_pride url params =
     Answered (ok_response (JObj
       [(''count'', JInt 1),
        (''results'', JArr [JObj
           [(''id'', JInt 1342),
            (''title'', JStr ''Pride and Prejudice''),
            (''authors'', JArr [JObj [(''name'', JStr ''Jane Austen'')]]),
            (''formats'', JObj
               [(''text/html'', JStr ''https://www.gutenberg.org/ebooks/1342.html.images''),
                (''application/epub+zip'',
                 JStr ''https://www.gutenberg.org/ebooks/1342.epub3.images'')])]])]))"

text \<open>An OpenLibrary document with a PDF, a MOBI and an EPUB format.\<close>

definition open_library_pride :: network where
  "open_library_pride url params =
     Answered (ok_response (JObj
       [(''docs'', JArr [JObj
           [(''title'', JStr ''Pride and Prejudice''),
            (''author_name'', JArr [JStr ''Jane Austen'', JStr ''Anna Quindlen'']),
            (''key'', JStr ''/works/OL66554W''),
            (''formats'', JArr [JStr ''https://example.org/pride.PDF'',
                                JStr ''https://example.org/pride.mobi'',
                                JStr ''https://example.org/pride.epub''])]])]))"

text \<open>An Open Library payload whose documents are not dictionaries.\<close>

definition docs_of_strings :: network where
  "docs_of_strings url params = Answered (ok_response (JObj [(''docs'', JArr [JStr ''OL66554W''])]))"

text \<open>
  A stand-in for the interpreter's \<open>repr\<close> in the samples, right on \<open>None\<close>; no sample
  formats another value that is not a string.
\<close>

definition repr_of_none :: "json \<Rightarrow> string" where
  "repr_of_none v = ''None''"

text \<open>What a result says of the format it was made from: the URL and the label.\<close>

definition hit :: "BookResult \<Rightarrow> json \<times> string" where
  "hit r = (download_url r, format r)"

text \<open>The results of the two searches of download\_books.py on the sample replies.\<close>

definition pride_pdf :: BookResult where
  "pride_pdf =
     \<lparr>title = JStr ''Pride and Prejudice'', author = ''Jane Austen, Anna Quindlen'',
      format = ''PDF'', source = ''OpenLibrary'',
      download_url = JStr ''https://example.org/pride.PDF'', file_size = None\<rparr>"

definition pride_epub :: BookResult where
  "pride_epub =
     \<lparr>title = JStr ''Pride and Prejudice'', author = ''Jane Austen, Anna Quindlen'',
      format = ''EPUB'', source = ''OpenLibrary'',
      download_url = JStr ''https://example.org/pride.epub'', file_size = None\<rparr>"

definition pride_gutenberg :: BookResult where
  "pride_gutenberg =
     \<lparr>title = JStr ''Pride and Prejudice'', author = ''J, a, n, e,  , A, u, s, t, e, n'',
      format = ''EPUB'', source = ''Project Gutenberg'',
      download_url = JStr ''https://www.gutenberg.org/ebooks/1342.epub3.images'',
      file_size = None\<rparr>"

chapter \<open>Properties\<close>

section \<open>Sequencing\<close>

lemma and_then_Inl [simp]: "and_then (Inl e) f = Inl e"
  by (simp add: and_then_def)

lemma and_then_Inr [simp]: "and_then (Inr v) f = f v"
  by (simp add: and_then_def)

lemma and_then_Inr_iff: "and_then x f = Inr y \<longleftrightarrow> (\<exists>v. x = Inr v \<and> f v = Inr y)"
  by (cases x) simp_all

section \<open>Properties of the aggregation\<close>

lemma dict_setitem_keys:
  "map fst (dict_setitem d k v) = (if k \<in> set (map fst d) then map fst d else map fst d @ [k])"
  by (induction d) (auto simp: image_iff, force+)

lemma dict_setitem_distinct:
  "distinct (map fst d) \<Longrightarrow> distinct (map fst (dict_setitem d k v))"
  by (simp add: dict_setitem_keys)

lemma dict_setitem_map_of:
  "map_of (dict_setitem d k v) = (map_of d)(k \<mapsto> v)"
  by (induction d) (auto simp: fun_eq_iff)

text \<open>Every item of the dictionary is stored under the key of its own URL.\<close>

definition keyed :: "(json \<times> BookResult) list \<Rightarrow> bool" where
  "keyed d = list_all (\<lambda>(k, r). hash_key (download_url r) = Inr k) d"

lemma keyed_setitem:
  "keyed d \<Longrightarrow> hash_key (download_url r) = Inr k \<Longrightarrow> keyed (dict_setitem d k r)"
  by (induction d) (auto simp: keyed_def)

lemma keyed_keys:
  "keyed d \<Longrightarrow> map (\<lambda>r. hash_key (download_url r)) (map snd d) = map Inr (map fst d)"
  by (induction d) (auto simp: keyed_def)

lemma dict_comprehension_inv:
  "dict_comprehension rs d = Inr d' \<Longrightarrow> distinct (map fst d) \<Longrightarrow> keyed d
   \<Longrightarrow> distinct (map fst d') \<and> keyed d'"
proof (induction rs arbitrary: d)
  case Nil
  then show ?case by simp
next
  case (Cons r rs)
  then show ?case
    by (auto split: sum.splits intro: dict_setitem_distinct keyed_setitem)
qed

lemma dict_comprehension_map_of:
  "dict_comprehension rs d = Inr d' \<Longrightarrow>
   map_of d' k = (case filter (\<lambda>x. hash_key (download_url x) = Inr k) rs of
                    [] \<Rightarrow> map_of d k | xs \<Rightarrow> Some (last xs))"
proof (induction rs arbitrary: d)
  case Nil
  then show ?case by simp
next
  case (Cons r rs)
  then show ?case
    by (auto split: sum.splits list.splits simp: dict_setitem_map_of)
qed

lemma dict_comprehension_ok:
  "(\<exists>d'. dict_comprehension rs d = Inr d') =
   list_all (\<lambda>r. \<not> isl (hash_key (download_url r))) rs"
  by (induction rs arbitrary: d) (auto split: sum.splits)

lemma extend_all_concat: "extend_all srcs = concat srcs"
proof -
  have "foldl (\<lambda>results s. results @ s) acc srcs = acc @ concat srcs"
    for acc :: "BookResult list"
    by (induction srcs arbitrary: acc) auto
  then show ?thesis by (simp add: extend_all_def)
qed

lemma unique_results_distinct:
  assumes "unique_results rs = Inr out"
  shows "distinct (map (\<lambda>r. hash_key (download_url r)) out)"
proof -
  from assms obtain d where d: "dict_comprehension rs [] = Inr d" and out: "out = map snd d"
    by (auto simp: unique_results_def dict_values_def split: sum.splits)
  from dict_comprehension_inv [OF d] have "distinct (map fst d)" "keyed d"
    by (simp_all add: keyed_def)
  then have eq: "map (\<lambda>r. hash_key (download_url r)) out = map Inr (map fst d)"
    and dist: "distinct (map fst d)"
    using keyed_keys [of d] by (simp_all only: out)
  have "distinct (map (Inr :: json \<Rightarrow> pyerr + json) ks) = distinct ks" for ks
    by (simp add: distinct_map)
  with dist show ?thesis
    unfolding eq by blast
qed

lemma unique_results_last:
  assumes ok: "unique_results rs = Inr out"
  shows "r \<in> set rs \<Longrightarrow> last (filter (\<lambda>x. same_url x r) rs) \<in> set out"
    and "x \<in> set out \<Longrightarrow> x \<in> set rs \<and> x = last (filter (\<lambda>y. same_url y x) rs)"
proof -
  from ok obtain d where d: "dict_comprehension rs [] = Inr d" and out: "out = map snd d"
    by (auto simp: unique_results_def dict_values_def split: sum.splits)
  from dict_comprehension_inv [OF d] have dist: "distinct (map fst d)" and kd: "keyed d"
    by (simp_all add: keyed_def)
  have look: "map_of d k = (case filter (\<lambda>x. hash_key (download_url x) = Inr k) rs of
                    [] \<Rightarrow> None | xs \<Rightarrow> Some (last xs))" for k
    using dict_comprehension_map_of [OF d, of k] by (simp split: list.splits)
  {
    assume r: "r \<in> set rs"
    from d have "list_all (\<lambda>r. \<not> isl (hash_key (download_url r))) rs"
      using dict_comprehension_ok [of rs "[]"] by blast
    with r obtain k where k: "hash_key (download_url r) = Inr k"
      by (cases "hash_key (download_url r)") (auto simp: list_all_iff)
    then have same: "(\<lambda>x. same_url x r) = (\<lambda>x. hash_key (download_url x) = Inr k)"
      by (simp add: same_url_def fun_eq_iff)
    from r k have "filter (\<lambda>x. hash_key (download_url x) = Inr k) rs \<noteq> []"
      by (auto simp: filter_empty_conv)
    with look [of k] have "map_of d k = Some (last (filter (\<lambda>x. same_url x r) rs))"
      by (simp add: same split: list.splits)
    then show "last (filter (\<lambda>x. same_url x r) rs) \<in> set out"
      unfolding out by (force dest: map_of_SomeD)
  }
  {
    assume "x \<in> set out"
    then obtain k where kx: "(k, x) \<in> set d" by (auto simp: out)
    with kd have k: "hash_key (download_url x) = Inr k"
      by (auto simp: keyed_def list_all_iff)
    then have same: "(\<lambda>y. same_url y x) = (\<lambda>y. hash_key (download_url y) = Inr k)"
      by (simp add: same_url_def fun_eq_iff)
    from kx dist have "map_of d k = Some x" by simp
    with look [of k] have ne: "filter (\<lambda>y. same_url y x) rs \<noteq> []"
      and eq: "x = last (filter (\<lambda>y. same_url y x) rs)"
      by (simp_all add: same split: list.splits)
    from ne have "last (filter (\<lambda>y. same_url y x) rs) \<in> set (filter (\<lambda>y. same_url y x) rs)"
      by (rule last_in_set)
    with eq have "x \<in> set rs" by auto
    with eq show "x \<in> set rs \<and> x = last (filter (\<lambda>y. same_url y x) rs)" by blast
  }
qed

lemma aggregate_samples:
  "aggregate [[emma_open_library, pride_pdf], [emma_gutenberg]] = Inr [emma_gutenberg, pride_pdf]"
  by (simp add: aggregate_def extend_all_def unique_results_def dict_values_def
      emma_open_library_def emma_gutenberg_def pride_pdf_def)

text \<open>
  C1, as the specification states it: of two entries with one URL the first is kept.
  It fails: OpenLibrary's hit comes first and Project Gutenberg's hit for the same URL is
  the one in the output.
\<close>

theorem aggregate_first_wins_counterexample:
  "main_unique_results [emma_open_library] [emma_gutenberg] = Inr [emma_gutenberg]
   \<and> aggregate [[emma_open_library], [emma_gutenberg]] = Inr [emma_gutenberg]
   \<and> same_url emma_open_library emma_gutenberg
   \<and> emma_open_library \<notin> set [emma_gutenberg]"
  by (simp add: main_unique_results_def aggregate_def extend_all_def unique_results_def
      dict_values_def emma_open_library_def emma_gutenberg_def same_url_def)

text \<open>
  C1, amended: when entries share a \<open>download_url\<close>, the aggregated output contains the
  last such entry in overall input order. Every entry of the input is represented by the
  last entry with its URL, and every entry of the output is the last input entry with its
  URL.
\<close>

theorem aggregate_last_wins:
  assumes "aggregate sources = Inr out"
  shows "(\<forall>r \<in> set (concat sources).
            last (filter (\<lambda>x. same_url x r) (concat sources)) \<in> set out)
       \<and> (\<forall>x \<in> set out.
            x \<in> set (concat sources)
            \<and> x = last (filter (\<lambda>y. same_url y x) (concat sources)))"
proof -
  from assms have ok: "unique_results (concat sources) = Inr out"
    by (simp add: aggregate_def extend_all_concat)
  show ?thesis
    using unique_results_last [OF ok] by blast
qed

theorem aggregate_last_wins_witness:
  "aggregate [[emma_open_library, pride_pdf], [emma_gutenberg]] = Inr [emma_gutenberg, pride_pdf]
   \<and> emma_open_library \<in> set (concat [[emma_open_library, pride_pdf], [emma_gutenberg]])
   \<and> last (filter (\<lambda>x. same_url x emma_open_library)
        (concat [[emma_open_library, pride_pdf], [emma_gutenberg]]))
       \<in> set [emma_gutenberg, pride_pdf]
   \<and> emma_gutenberg \<in> set [emma_gutenberg, pride_pdf]
   \<and> emma_gutenberg \<in> set (concat [[emma_open_library, pride_pdf], [emma_gutenberg]])
   \<and> emma_gutenberg = last (filter (\<lambda>y. same_url y emma_gutenberg)
        (concat [[emma_open_library, pride_pdf], [emma_gutenberg]]))"
proof -
  have first: "emma_open_library \<in> set (concat [[emma_open_library, pride_pdf], [emma_gutenberg]])"
    and kept: "emma_gutenberg \<in> set [emma_gutenberg, pride_pdf]"
    by simp_all
  from aggregate_last_wins [OF aggregate_samples] first kept aggregate_samples
  show ?thesis by blast
qed

text \<open>
  C2: the aggregated output contains no two entries with equal \<open>download_url\<close>, whatever
  the input; when every URL is a string, as the dataclass declares, the aggregation
  returns and the URLs of its output are pairwise different; the empty input gives the
  empty output and no error, and so do two empty result lists in \<open>main\<close>.
\<close>

theorem aggregate_no_duplicate_urls:
  "(\<forall>out. aggregate sources = Inr out \<longrightarrow>
      distinct (map (\<lambda>r. hash_key (download_url r)) out))
   \<and> ((\<forall>r \<in> set (concat sources). \<exists>u. download_url r = JStr u) \<longrightarrow>
      (\<exists>out. aggregate sources = Inr out \<and> distinct (map download_url out)))
   \<and> aggregate [] = Inr []
   \<and> main_unique_results [] [] = Inr []"
proof (intro conjI allI impI)
  fix out
  assume "aggregate sources = Inr out"
  then show "distinct (map (\<lambda>r. hash_key (download_url r)) out)"
    by (simp add: aggregate_def unique_results_distinct)
next
  assume strs: "\<forall>r \<in> set (concat sources). \<exists>u. download_url r = JStr u"
  have "\<not> isl (hash_key (download_url r))" if "r \<in> set (concat sources)" for r
  proof -
    from strs that obtain u where "download_url r = JStr u" by blast
    then show ?thesis by simp
  qed
  then have "list_all (\<lambda>r. \<not> isl (hash_key (download_url r))) (concat sources)"
    unfolding list_all_iff by blast
  then obtain d where "dict_comprehension (concat sources) [] = Inr d"
    using dict_comprehension_ok [of "concat sources" "[]"] by blast
  then have ok: "unique_results (concat sources) = Inr (dict_values d)"
    by (simp add: unique_results_def)
  have sub: "\<forall>x \<in> set (dict_values d). \<exists>u. download_url x = JStr u"
    using unique_results_last(2) [OF ok] strs by blast
  then have "map (\<lambda>r. hash_key (download_url r)) (dict_values d)
               = map (\<lambda>r. Inr (download_url r)) (dict_values d)"
    by (intro map_cong) auto
  with unique_results_distinct [OF ok]
  have "distinct (map (Inr \<circ> download_url) (dict_values d) :: (pyerr + json) list)"
    by (simp add: comp_def)
  then have "distinct (map download_url (dict_values d))"
    by (simp add: distinct_map inj_on_def)
  with ok show "\<exists>out. aggregate sources = Inr out \<and> distinct (map download_url out)"
    by (simp add: aggregate_def extend_all_concat)
next
  show "aggregate [] = Inr []"
    by (simp add: aggregate_def extend_all_def unique_results_def dict_values_def)
  show "main_unique_results [] [] = Inr []"
    by (simp add: main_unique_results_def aggregate_def extend_all_def unique_results_def
        dict_values_def)
qed

theorem aggregate_no_duplicate_urls_witness:
  "aggregate [[emma_open_library, pride_pdf], [emma_gutenberg]] = Inr [emma_gutenberg, pride_pdf]
   \<and> distinct (map (\<lambda>r. hash_key (download_url r)) [emma_gutenberg, pride_pdf])
   \<and> (\<exists>out. aggregate [[emma_open_library, pride_pdf], [emma_gutenberg]] = Inr out
         \<and> distinct (map download_url out))
   \<and> aggregate [] = Inr []
   \<and> main_unique_results [] [] = Inr []"
proof -
  have strings: "\<forall>r \<in> set (concat [[emma_open_library, pride_pdf], [emma_gutenberg]]).
      \<exists>u. download_url r = JStr u"
    by (simp add: emma_open_library_def emma_gutenberg_def pride_pdf_def)
  from aggregate_no_duplicate_urls [of "[[emma_open_library, pride_pdf], [emma_gutenberg]]"]
    strings aggregate_samples
  show ?thesis by blast
qed

section \<open>Properties of display\_results\<close>

lemma int_body_error: "int_body m s = Inl e \<Longrightarrow> e = ValueError"
  by (auto simp: int_body_def Let_def split: list.splits if_splits option.splits)

lemma py_int_error: "py_int m s = Inl e \<Longrightarrow> e = ValueError"
proof -
  have body: "map_sum id f (int_body m t) = Inl e \<Longrightarrow> e = ValueError"
    for f :: "nat \<Rightarrow> int" and t
    by (cases "int_body m t") (auto dest: int_body_error)
  assume "py_int m s = Inl e"
  then show ?thesis
    unfolding py_int_def Let_def
    by (auto split: list.splits if_splits dest: body)
qed

lemma console_eqI: "shown a = shown b \<Longrightarrow> stdin a = stdin b \<Longrightarrow> (a :: console) = b"
  by (cases a, cases b) simp

lemma choice_loop_eof:
  "stdin con = [] \<Longrightarrow>
   choice_loop m results con = (Inl EOFError, console_print (Prompt choice_prompt) con)"
  by (subst choice_loop.simps) (simp add: console_input_def)

lemma choice_loop_quit:
  "stdin con = c # rest \<Longrightarrow> quit_token c \<Longrightarrow>
   choice_loop m results con =
     (Inr None, (console_print (Prompt choice_prompt) con)\<lparr>stdin := rest\<rparr>)"
  by (subst choice_loop.simps) (simp add: console_input_def quit_token_def)

lemma choice_loop_accepted:
  "stdin con = c # rest \<Longrightarrow> accepted m results c \<Longrightarrow>
   \<exists>n. py_int m c = Inr n \<and> 1 \<le> n \<and> n \<le> int (length results) \<and>
   choice_loop m results con =
     (Inr (Some (results ! nat (n - 1))),
      (console_print (Prompt choice_prompt) con)\<lparr>stdin := rest\<rparr>)"
  by (subst choice_loop.simps)
     (auto simp add: console_input_def quit_token_def accepted_def split: sum.splits)

lemma choice_loop_rejected:
  "stdin con = c # rest \<Longrightarrow> rejected m results c \<Longrightarrow>
   choice_loop m results con =
     choice_loop m results
       (con\<lparr>shown := shown con @ [Prompt choice_prompt, rejection m c],
            stdin := rest\<rparr>)"
  by (subst choice_loop.simps)
     (auto simp add: console_input_def quit_token_def accepted_def rejected_def rejection_def
        console_print_def dest: py_int_error split: sum.splits
        intro!: arg_cong [where f = "choice_loop m results"] console_eqI)

lemma choice_loop_reprompts:
  "list_all (rejected m results) bad \<Longrightarrow> stdin con = bad @ rest \<Longrightarrow>
   choice_loop m results con =
     choice_loop m results (con\<lparr>shown := shown con @ reprompts m bad, stdin := rest\<rparr>)"
proof (induction bad arbitrary: con)
  case Nil
  then have "con = con\<lparr>shown := shown con @ reprompts m [], stdin := rest\<rparr>"
    by (intro console_eqI) (simp_all add: reprompts_def)
  then show ?case by simp
next
  case (Cons c bad)
  from Cons.prems have c: "rejected m results c" and bad: "list_all (rejected m results) bad"
    and con: "stdin con = c # (bad @ rest)" by simp_all
  let ?con1 = "con\<lparr>shown := shown con @ [Prompt choice_prompt, rejection m c],
                stdin := bad @ rest\<rparr>"
  have "choice_loop m results con = choice_loop m results ?con1"
    using choice_loop_rejected [OF con c] .
  also have "\<dots> = choice_loop m results
      (?con1\<lparr>shown := shown ?con1 @ reprompts m bad, stdin := rest\<rparr>)"
    by (rule Cons.IH [OF bad]) simp
  also have "?con1\<lparr>shown := shown ?con1 @ reprompts m bad, stdin := rest\<rparr>
      = con\<lparr>shown := shown con @ reprompts m (c # bad), stdin := rest\<rparr>"
    by (intro console_eqI) (simp_all add: reprompts_def)
  finally show ?case .
qed

lemma choice_loop_cases:
  "choice_loop m results con = (res, con') \<Longrightarrow>
   (\<exists>pre c. stdin con = pre @ c # stdin con' \<and> list_all (rejected m results) pre \<and>
      (quit_token c \<and> res = Inr None
       \<or> (\<exists>n. py_int m c = Inr n \<and> 1 \<le> n \<and> n \<le> int (length results)
              \<and> res = Inr (Some (results ! nat (n - 1))))))
   \<or> (res = Inl EOFError \<and> stdin con' = [] \<and> list_all (rejected m results) (stdin con))"
proof (induction "stdin con" arbitrary: con)
  case Nil
  then show ?case by (auto simp: choice_loop_eof console_print_def)
next
  case (Cons c rest)
  from Cons.hyps(2) have con: "stdin con = c # rest" by simp
  consider (q) "quit_token c" | (a) "accepted m results c" | (r) "rejected m results c"
    by (auto simp: rejected_def)
  then show ?case
  proof cases
    case q
    from choice_loop_quit [OF con q, of m results] Cons.prems
    have "res = Inr None" and "stdin con' = rest" by (auto simp: console_print_def)
    with con q have "stdin con = [] @ c # stdin con' \<and> list_all (rejected m results) [] \<and>
      quit_token c \<and> res = Inr None" by simp
    then show ?thesis by blast
  next
    case a
    from choice_loop_accepted [OF con a] Cons.prems
    obtain n where "py_int m c = Inr n" "1 \<le> n" "n \<le> int (length results)"
      "res = Inr (Some (results ! nat (n - 1)))" "stdin con' = rest"
      by (auto simp: console_print_def)
    with con have "stdin con = [] @ c # stdin con' \<and> list_all (rejected m results) [] \<and>
      (\<exists>n. py_int m c = Inr n \<and> 1 \<le> n \<and> n \<le> int (length results)
              \<and> res = Inr (Some (results ! nat (n - 1))))" by simp
    then show ?thesis by blast
  next
    case r
    let ?con1 = "con\<lparr>shown := shown con @ [Prompt choice_prompt, rejection m c],
                  stdin := rest\<rparr>"
    from choice_loop_rejected [OF con r] Cons.prems
    have "choice_loop m results ?con1 = (res, con')" by simp
    from Cons.hyps(1) [OF _ this]
    consider (ret) pre c' where "rest = pre @ c' # stdin con'" "list_all (rejected m results) pre"
        "quit_token c' \<and> res = Inr None
         \<or> (\<exists>n. py_int m c' = Inr n \<and> 1 \<le> n \<and> n \<le> int (length results)
              \<and> res = Inr (Some (results ! nat (n - 1))))"
      | (eof) "res = Inl EOFError" "stdin con' = []" "list_all (rejected m results) rest"
      by auto
    then show ?thesis
    proof cases
      case ret
      with con r have "stdin con = (c # pre) @ c' # stdin con'"
        and "list_all (rejected m results) (c # pre)" by simp_all
      with ret(3) show ?thesis by blast
    next
      case eof
      with con r show ?thesis by simp
    qed
  qed
qed


lemmas choice_eval =
  rejected_def accepted_def quit_token_def rejection_def py_lower_def lower_char_def
  code_point_def py_int_def int_space_def int_body_def py_isdecimal_def digit_value_def

lemma scenario_rejected:
  "list_all (rejected m [b1, b2]) [''0'', ''-1'', ''abc'']"
  by (simp add: choice_eval)

lemma scenario_reprompts:
  "reprompts m [''0'', ''-1'', ''abc''] =
     [Prompt choice_prompt, invalid_number, Prompt choice_prompt, invalid_number,
      Prompt choice_prompt, not_a_number]"
  by (simp add: reprompts_def choice_eval)

lemma scenario_accepted: "accepted m [b1, b2] ''2'' \<and> py_int m ''2'' = Inr 2"
  by (simp add: choice_eval)

lemma display_results_nonempty:
  "results \<noteq> [] \<Longrightarrow>
   display_results m results con =
     choice_loop m results (con\<lparr>shown := shown con @ [PrintTable (table_rows results)]\<rparr>)"
  by (simp add: display_results_def console_print_def)

lemma display_results_scenario:
  "display_results m [b1, b2] (con\<lparr>stdin := [''0'', ''-1'', ''abc'', ''2'']\<rparr>) =
     (Inr (Some b2),
      con\<lparr>shown := shown con @
             [PrintTable (table_rows [b1, b2]),
              Prompt choice_prompt, invalid_number,
              Prompt choice_prompt, invalid_number,
              Prompt choice_prompt, not_a_number,
              Prompt choice_prompt],
          stdin := []\<rparr>)"
proof -
  let ?con0 = "con\<lparr>stdin := [''0'', ''-1'', ''abc'', ''2'']\<rparr>"
  let ?con1 = "?con0\<lparr>shown := shown ?con0 @ [PrintTable (table_rows [b1, b2])]\<rparr>"
  let ?con2 = "?con1\<lparr>shown := shown ?con1 @ reprompts m [''0'', ''-1'', ''abc''],
                    stdin := [''2'']\<rparr>"
  have "display_results m [b1, b2] ?con0 = choice_loop m [b1, b2] ?con1"
    by (rule display_results_nonempty) simp
  also have "\<dots> = choice_loop m [b1, b2] ?con2"
    by (rule choice_loop_reprompts [OF scenario_rejected]) simp
  also have "\<dots> = (Inr (Some b2), (console_print (Prompt choice_prompt) ?con2)\<lparr>stdin := []\<rparr>)"
    using choice_loop_accepted [of ?con2 "''2''" "[]" m "[b1, b2]"] scenario_accepted [of m b1 b2]
    by simp
  also have "(console_print (Prompt choice_prompt) ?con2)\<lparr>stdin := []\<rparr> =
      con\<lparr>shown := shown con @
             [PrintTable (table_rows [b1, b2]),
              Prompt choice_prompt, invalid_number,
              Prompt choice_prompt, invalid_number,
              Prompt choice_prompt, not_a_number,
              Prompt choice_prompt],
          stdin := []\<rparr>"
    by (intro console_eqI) (simp_all add: scenario_reprompts console_print_def)
  finally show ?thesis .
qed

lemma display_results_rejected_lines:
  assumes ne: "results \<noteq> []" and bad: "list_all (rejected m results) bad"
  shows "display_results m results (con\<lparr>stdin := bad @ later\<rparr>) =
          choice_loop m results
            (con\<lparr>shown := shown con @ PrintTable (table_rows results) # reprompts m bad,
                 stdin := later\<rparr>)"
proof -
  let ?con1 = "con\<lparr>stdin := bad @ later,
                   shown := shown con @ [PrintTable (table_rows results)]\<rparr>"
  have "display_results m results (con\<lparr>stdin := bad @ later\<rparr>) = choice_loop m results ?con1"
    using display_results_nonempty [OF ne, of m "con\<lparr>stdin := bad @ later\<rparr>"] by simp
  also have "\<dots> = choice_loop m results
      (?con1\<lparr>shown := shown ?con1 @ reprompts m bad, stdin := later\<rparr>)"
    by (rule choice_loop_reprompts [OF bad]) simp
  also have "?con1\<lparr>shown := shown ?con1 @ reprompts m bad, stdin := later\<rparr> =
      con\<lparr>shown := shown con @ PrintTable (table_rows results) # reprompts m bad,
          stdin := later\<rparr>"
    by (intro console_eqI) simp_all
  finally show ?thesis .
qed

lemma display_results_end_of_input:
  assumes "results \<noteq> []" and "list_all (rejected m results) bad"
  shows "fst (display_results m results (con\<lparr>stdin := bad\<rparr>)) = Inl EOFError"
  using display_results_rejected_lines [OF assms, where con = con and later = "[]"]
  by (simp add: choice_loop_eof)

text \<open>
  C6: against a list of two results the inputs \<open>0\<close>, \<open>-1\<close>, \<open>abc\<close>, \<open>2\<close> give three
  rejections, each with its message and a new prompt, and then the second item. In general
  every rejected line (not the quit token, and not an integer or out of range) costs one
  prompt and one message and leaves the loop running: after any number of them the loop
  goes on with the rest of the input, is still asking when the input ends there, and
  returns no selection when the quit token follows.
\<close>

theorem display_results_reprompts:
  "display_results m [b1, b2] (con\<lparr>stdin := [''0'', ''-1'', ''abc'', ''2'']\<rparr>) =
     (Inr (Some b2),
      con\<lparr>shown := shown con @
             [PrintTable (table_rows [b1, b2]),
              Prompt choice_prompt, invalid_number,
              Prompt choice_prompt, invalid_number,
              Prompt choice_prompt, not_a_number,
              Prompt choice_prompt],
          stdin := []\<rparr>)
   \<and> (results \<noteq> [] \<and> list_all (rejected m results) bad \<longrightarrow>
        display_results m results (con\<lparr>stdin := bad @ rest\<rparr>) =
          choice_loop m results
            (con\<lparr>shown := shown con @ PrintTable (table_rows results) # reprompts m bad,
                 stdin := rest\<rparr>)
        \<and> length (reprompts m bad) = 2 * length bad
        \<and> fst (display_results m results (con\<lparr>stdin := bad\<rparr>)) = Inl EOFError
        \<and> (quit_token q \<longrightarrow>
             fst (display_results m results (con\<lparr>stdin := bad @ q # rest\<rparr>)) = Inr None))"
proof (intro conjI impI)
  show "display_results m [b1, b2] (con\<lparr>stdin := [''0'', ''-1'', ''abc'', ''2'']\<rparr>) =
     (Inr (Some b2),
      con\<lparr>shown := shown con @
             [PrintTable (table_rows [b1, b2]),
              Prompt choice_prompt, invalid_number,
              Prompt choice_prompt, invalid_number,
              Prompt choice_prompt, not_a_number,
              Prompt choice_prompt],
          stdin := []\<rparr>)"
    by (rule display_results_scenario)
next
  assume "results \<noteq> [] \<and> list_all (rejected m results) bad"
  then have ne: "results \<noteq> []" and bad: "list_all (rejected m results) bad" by simp_all
  have run: "display_results m results (con\<lparr>stdin := bad @ tl\<rparr>) =
          choice_loop m results
            (con\<lparr>shown := shown con @ PrintTable (table_rows results) # reprompts m bad,
                 stdin := tl\<rparr>)" for tl
    using ne bad by (rule display_results_rejected_lines)
  show "display_results m results (con\<lparr>stdin := bad @ rest\<rparr>) =
          choice_loop m results
            (con\<lparr>shown := shown con @ PrintTable (table_rows results) # reprompts m bad,
                 stdin := rest\<rparr>)"
    by (rule run)
  show "length (reprompts m bad) = 2 * length bad"
    by (induction bad) (simp_all add: reprompts_def)
  show "fst (display_results m results (con\<lparr>stdin := bad\<rparr>)) = Inl EOFError"
    using ne bad by (rule display_results_end_of_input)
  show "fst (display_results m results (con\<lparr>stdin := bad @ q # rest\<rparr>)) = Inr None"
    if "quit_token q"
    using run [of "q # rest"] that by (simp add: choice_loop_quit [where rest = rest])
qed

theorem display_results_reprompts_witness:
  "list_all (rejected 4300 [emma_open_library, emma_gutenberg]) [''0'', ''-1'', ''abc'']
   \<and> display_results 4300 [emma_open_library, emma_gutenberg]
        (empty_console\<lparr>stdin := [''0'', ''-1'', ''abc''] @ [''2'']\<rparr>) =
      choice_loop 4300 [emma_open_library, emma_gutenberg]
        (empty_console\<lparr>shown := shown empty_console @
            PrintTable (table_rows [emma_open_library, emma_gutenberg])
              # reprompts 4300 [''0'', ''-1'', ''abc''],
           stdin := [''2'']\<rparr>)
   \<and> length (reprompts 4300 [''0'', ''-1'', ''abc'']) = 2 * length [''0'', ''-1'', ''abc'']
   \<and> fst (display_results 4300 [emma_open_library, emma_gutenberg]
        (empty_console\<lparr>stdin := [''0'', ''-1'', ''abc'']\<rparr>)) = Inl EOFError
   \<and> quit_token ''Q''
   \<and> fst (display_results 4300 [emma_open_library, emma_gutenberg]
        (empty_console\<lparr>stdin := [''0'', ''-1'', ''abc''] @ ''Q'' # [''2'']\<rparr>)) = Inr None"
proof -
  have bad: "list_all (rejected 4300 [emma_open_library, emma_gutenberg]) [''0'', ''-1'', ''abc'']"
    by (rule scenario_rejected)
  have q: "quit_token ''Q''"
    by code_simp
  have ne: "[emma_open_library, emma_gutenberg] \<noteq> []"
    by simp
  show ?thesis
    using display_results_reprompts [of 4300 emma_open_library emma_gutenberg empty_console
        "[emma_open_library, emma_gutenberg]" "[''0'', ''-1'', ''abc'']" "[''2'']" "''Q''"]
      bad q ne
    by blast
qed

text \<open>
  C9: \<open>display_results\<close> returns \<open>None\<close> or an element of its list. A returned result is
  the \<open>n\<close>-th element (counted from 1) for the accepted integer \<open>n\<close> of the last line that
  was read, every line before it having been rejected; on the empty list the result is
  \<open>None\<close> and no input is read. The call returns as soon as a line is the quit token or
  an accepted number; it ends with \<open>EOFError\<close> only when the input ends after
  rejected lines alone.
\<close>

theorem display_results_returns_choice:
  assumes run: "display_results m results con = (res, con')"
  shows "(results = [] \<longrightarrow> res = Inr None \<and> stdin con' = stdin con)
    \<and> (\<forall>r. res = Inr (Some r) \<longrightarrow>
          r \<in> set results
          \<and> (\<exists>pre c n. stdin con = pre @ c # stdin con' \<and> list_all (rejected m results) pre
                \<and> py_int m c = Inr n \<and> 1 \<le> n \<and> n \<le> int (length results)
                \<and> r = results ! nat (n - 1)))
    \<and> (\<forall>e. res = Inl e \<longrightarrow>
          e = EOFError \<and> stdin con' = [] \<and> list_all (rejected m results) (stdin con))
    \<and> (results = [] \<or> (\<exists>c \<in> set (stdin con). \<not> rejected m results c) \<longrightarrow>
          (\<exists>x. res = Inr x))"
proof (cases "results = []")
  case True
  with run show ?thesis
    by (auto simp: display_results_def console_print_def)
next
  case False
  let ?con1 = "con\<lparr>shown := shown con @ [PrintTable (table_rows results)]\<rparr>"
  from run False have loop: "choice_loop m results ?con1 = (res, con')"
    by (simp add: display_results_nonempty)
  from choice_loop_cases [OF loop]
  consider (ret) pre c where "stdin con = pre @ c # stdin con'"
      "list_all (rejected m results) pre"
      "quit_token c \<and> res = Inr None
       \<or> (\<exists>n. py_int m c = Inr n \<and> 1 \<le> n \<and> n \<le> int (length results)
              \<and> res = Inr (Some (results ! nat (n - 1))))"
    | (eof) "res = Inl EOFError" "stdin con' = []" "list_all (rejected m results) (stdin con)"
    by auto
  then show ?thesis
  proof cases
    case ret
    have "r \<in> set results \<and> (\<exists>pre c n. stdin con = pre @ c # stdin con'
            \<and> list_all (rejected m results) pre
            \<and> py_int m c = Inr n \<and> 1 \<le> n \<and> n \<le> int (length results)
            \<and> r = results ! nat (n - 1))"
      if r: "res = Inr (Some r)" for r
    proof -
      from ret(3) r obtain n where n: "py_int m c = Inr n" "1 \<le> n" "n \<le> int (length results)"
        "r = results ! nat (n - 1)" by auto
      then have "nat (n - 1) < length results" by linarith
      with n(4) have "r \<in> set results" by simp
      with ret(1,2) n show ?thesis by blast
    qed
    moreover from ret(3) have "\<exists>x. res = Inr x" "\<forall>e. res \<noteq> Inl e" by auto
    ultimately show ?thesis using False by blast
  next
    case eof
    then have "\<forall>c \<in> set (stdin con). rejected m results c"
      by (simp add: list_all_iff)
    with eof False show ?thesis by auto
  qed
qed

theorem display_results_returns_choice_witness:
  "display_results 4300 [emma_open_library, emma_gutenberg]
       (empty_console\<lparr>stdin := [''0'', ''-1'', ''abc'', ''2'']\<rparr>) =
     (Inr (Some emma_gutenberg),
      empty_console\<lparr>shown := shown empty_console @
             [PrintTable (table_rows [emma_open_library, emma_gutenberg]),
              Prompt choice_prompt, invalid_number,
              Prompt choice_prompt, invalid_number,
              Prompt choice_prompt, not_a_number,
              Prompt choice_prompt],
          stdin := []\<rparr>)
   \<and> emma_gutenberg \<in> set [emma_open_library, emma_gutenberg]
   \<and> (\<exists>pre c n. [''0'', ''-1'', ''abc'', ''2''] = pre @ [c]
          \<and> list_all (rejected 4300 [emma_open_library, emma_gutenberg]) pre
          \<and> py_int 4300 c = Inr n \<and> 1 \<le> n \<and> n \<le> 2
          \<and> emma_gutenberg = [emma_open_library, emma_gutenberg] ! nat (n - 1))
   \<and> ''2'' \<in> set [''0'', ''-1'', ''abc'', ''2'']
   \<and> \<not> rejected 4300 [emma_open_library, emma_gutenberg] ''2''
   \<and> display_results 4300 [] (empty_console\<lparr>stdin := [''1'']\<rparr>) =
       (Inr None, (console_print no_results empty_console)\<lparr>stdin := [''1'']\<rparr>)
   \<and> stdin ((console_print no_results empty_console)\<lparr>stdin := [''1'']\<rparr>) = [''1'']
   \<and> fst (display_results 4300 [emma_open_library, emma_gutenberg]
          (empty_console\<lparr>stdin := [''0'', ''-1'', ''abc'']\<rparr>)) = Inl EOFError
   \<and> stdin (snd (display_results 4300 [emma_open_library, emma_gutenberg]
          (empty_console\<lparr>stdin := [''0'', ''-1'', ''abc'']\<rparr>))) = []
   \<and> list_all (rejected 4300 [emma_open_library, emma_gutenberg]) [''0'', ''-1'', ''abc'']"
proof -
  let ?rs = "[emma_open_library, emma_gutenberg]"
  have e: "display_results 4300 [] (empty_console\<lparr>stdin := [''1'']\<rparr>) =
       (Inr None, (console_print no_results empty_console)\<lparr>stdin := [''1'']\<rparr>)"
    by (simp add: display_results_def console_print_def)
  have two: "\<not> rejected 4300 ?rs ''2''"
    using scenario_accepted [of 4300 emma_open_library emma_gutenberg]
    by (simp add: rejected_def)
  have eof: "fst (display_results 4300 ?rs (empty_console\<lparr>stdin := [''0'', ''-1'', ''abc'']\<rparr>))
      = Inl EOFError"
    by (rule display_results_end_of_input [OF _ scenario_rejected]) simp
  have run: "display_results 4300 ?rs (empty_console\<lparr>stdin := [''0'', ''-1'', ''abc'']\<rparr>) =
      (fst (display_results 4300 ?rs (empty_console\<lparr>stdin := [''0'', ''-1'', ''abc'']\<rparr>)),
       snd (display_results 4300 ?rs (empty_console\<lparr>stdin := [''0'', ''-1'', ''abc'']\<rparr>)))"
    by simp
  note a = display_results_returns_choice [OF display_results_scenario
        [of 4300 emma_open_library emma_gutenberg empty_console]]
  note b = display_results_returns_choice [OF e]
  note c = display_results_returns_choice [OF run]
  from c eof have w3: "stdin (snd (display_results 4300 ?rs
          (empty_console\<lparr>stdin := [''0'', ''-1'', ''abc'']\<rparr>))) = []
      \<and> list_all (rejected 4300 ?rs) [''0'', ''-1'', ''abc'']"
    by simp
  from a have w2: "emma_gutenberg \<in> set ?rs
      \<and> (\<exists>pre c n. [''0'', ''-1'', ''abc'', ''2''] = pre @ [c]
          \<and> list_all (rejected 4300 ?rs) pre
          \<and> py_int 4300 c = Inr n \<and> 1 \<le> n \<and> n \<le> 2
          \<and> emma_gutenberg = ?rs ! nat (n - 1))"
    by simp
  from b have w1: "stdin ((console_print no_results empty_console)\<lparr>stdin := [''1'']\<rparr>) = [''1'']"
    by simp
  from display_results_scenario [of 4300 emma_open_library emma_gutenberg empty_console]
    w2 two e w1 eof w3
  show ?thesis by simp
qed

section \<open>Properties of download\_book\<close>

lemma py_rstrip_snoc:
  "py_rstrip (s @ [c]) = (if py_isspace c then py_rstrip s else s @ [c])"
  by (subst py_rstrip.simps) simp

lemma py_rstrip_trim: "py_rstrip s = spec_trim_trailing s"
proof (induction s rule: rev_induct)
  case Nil
  show ?case by (subst py_rstrip.simps) (simp add: spec_trim_trailing_def)
next
  case (snoc c s)
  then show ?case by (simp add: py_rstrip_snoc spec_trim_trailing_def)
qed

lemma safe_parts_chars:
  "safe_parts (map (\<lambda>c. JStr [c]) s) = Inr (map (\<lambda>c. [c]) (filter (\<lambda>c. \<not> spec_removed c) s))"
  by (induction s) (auto simp: spec_removed_def str_isalnum_def)

lemma join_empty: "join [] xs = concat xs"
  by (induction "[] :: string" xs rule: join.induct) auto

lemma join_chars: "join [] (map (\<lambda>c. [c]) s) = s"
  by (induction s) (simp_all add: join_empty)

lemma safe_title_string:
  "safe_title (JStr t) = Inr (spec_trim_trailing (filter (\<lambda>c. \<not> spec_removed c) t))"
  by (simp add: safe_title_def safe_parts_chars join_chars py_rstrip_trim)

lemma spec_filename_example: "spec_filename ''A/B: Test*'' ''PDF'' = ''AB Test.pdf''"
  by code_simp

text \<open>
  C7: for every title string and every format, the file name of the download is the title
  with every character that is not alphanumeric, a space, a hyphen or an underscore
  removed, trailing whitespace trimmed, and a period and the lower-case format appended;
  the title \<open>A/B: Test*\<close> with format \<open>PDF\<close> gives \<open>AB Test.pdf\<close>.
\<close>

theorem download_filename_sanitized:
  "download_filename (book\<lparr>title := JStr t, format := fmt\<rparr>) = Inr (spec_filename t fmt)
   \<and> download_filename (book\<lparr>title := JStr ''A/B: Test*'', format := ''PDF''\<rparr>)
       = Inr ''AB Test.pdf''"
proof
  show general: "download_filename (book\<lparr>title := JStr t, format := fmt\<rparr>)
      = Inr (spec_filename t fmt)" for t fmt
    by (simp add: download_filename_def safe_title_string spec_filename_def)
  show "download_filename (book\<lparr>title := JStr ''A/B: Test*'', format := ''PDF''\<rparr>)
       = Inr ''AB Test.pdf''"
    by (simp only: general spec_filename_example)
qed

lemma py_int_16384: "py_int m ''16384'' = Inr 16384"
  by (simp add: py_int_def int_space_def code_point_def int_body_def py_isdecimal_def
      digit_value_def)

lemma iter_two_chunks:
  assumes "length c1 = 8192" "length c2 = 8192"
  shows "iter_chunks filename 16384 [c1, c2] 0 [] [] =
     (16384, c1 @ c2, [StatusUpdate filename 50, StatusUpdate filename 100])"
proof -
  from assms have "c1 \<noteq> []" "c2 \<noteq> []" by auto
  with assms show ?thesis by (simp add: Let_def)
qed

text \<open>
  C8: for a response that reports \<open>content-length: 16384\<close> and arrives as two chunks of
  8192 bytes, \<open>download_book\<close> reports the progress values 50 and 100, in this order
  (strictly increasing, the last one 100), computed as received / length * 100 after each
  chunk, and the file holds the two chunks. The quotients are exact here; both are
  values that binary floating point represents exactly.
\<close>

theorem download_progress:
  assumes url: "download_url book = JStr u"
    and net: "net u [] = Answered resp"
    and status: "status_code resp < 400"
    and len: "content_length resp = Some ''16384''"
    and body: "chunks resp = [c1, c2]" "length c1 = 8192" "length c2 = 8192"
    and name: "download_filename book = Inr filename"
    and opn: "can_open (os_path_join folder filename)"
  shows "\<exists>con' fs' new.
           download_book m folder can_open net book con fs
             = (Inr (stream_error resp = None), con', fs')
           \<and> shown con' = shown con @ new
           \<and> progress_values new = [50, 100]
           \<and> sorted_wrt (<) (progress_values new)
           \<and> last (progress_values new) = 100
           \<and> fs' (os_path_join folder filename) = Some (c1 @ c2)"
proof -
  have it: "iter_chunks filename 16384 (chunks resp) 0 [] [] =
     (16384, c1 @ c2, [StatusUpdate filename 50, StatusUpdate filename 100])"
    using body by (simp only: iter_two_chunks)
  have get: "requests_get net (download_url book) [] = Inr resp"
    by (simp add: requests_get_def url net)
  have st: "raise_for_status resp = Inr ()"
    using status by (simp add: raise_for_status_def)
  show ?thesis
  proof (cases "stream_error resp")
    case None
    then show ?thesis
      by (simp add: download_book_def download_try_def get st name len opn it py_int_16384
          console_print_def Let_def downloading_def downloaded_to_def)
  next
    case (Some e)
    then show ?thesis
      by (simp add: download_book_def download_try_def get st name len opn it py_int_16384
          console_print_def Let_def downloading_def downloaded_to_def)
  qed
qed

lemma sample_filename: "download_filename emma_open_library = Inr ''Emma.pdf''"
  by code_simp

theorem download_progress_witness:
  "download_url emma_open_library = JStr ''http://example.org/emma.pdf''
   \<and> status_code sample_response < 400
   \<and> content_length sample_response = Some ''16384''
   \<and> chunks sample_response = [replicate 8192 CHR ''a'', replicate 8192 CHR ''b'']
   \<and> length (replicate 8192 CHR ''a'') = 8192
   \<and> length (replicate 8192 CHR ''b'') = 8192
   \<and> download_filename emma_open_library = Inr ''Emma.pdf''
   \<and> (\<exists>con' fs' new.
         download_book 4300 ''/home/reader/Desktop/book_fetcher'' (\<lambda>path. True)
             (\<lambda>url params. Answered sample_response) emma_open_library empty_console Map.empty
           = (Inr True, con', fs')
         \<and> shown con' = shown empty_console @ new
         \<and> progress_values new = [50, 100]
         \<and> sorted_wrt (<) (progress_values new)
         \<and> last (progress_values new) = 100
         \<and> fs' (os_path_join ''/home/reader/Desktop/book_fetcher'' ''Emma.pdf'')
             = Some (replicate 8192 CHR ''a'' @ replicate 8192 CHR ''b''))"
proof -
  have url: "download_url emma_open_library = JStr ''http://example.org/emma.pdf''"
    by (simp add: emma_open_library_def)
  have resp: "status_code sample_response < 400"
    "content_length sample_response = Some ''16384''"
    "chunks sample_response = [replicate 8192 CHR ''a'', replicate 8192 CHR ''b'']"
    "stream_error sample_response = None"
    by (simp_all add: sample_response_def)
  have lens: "length (replicate 8192 CHR ''a'') = 8192" "length (replicate 8192 CHR ''b'') = 8192"
    by simp_all
  show ?thesis
    using download_progress [of emma_open_library "''http://example.org/emma.pdf''"
        "\<lambda>url params. Answered sample_response" sample_response
        "replicate 8192 CHR ''a''" "replicate 8192 CHR ''b''" "''Emma.pdf''" "\<lambda>path. True"
        "''/home/reader/Desktop/book_fetcher''" 4300 empty_console Map.empty,
        OF url _ resp(1) resp(2) resp(3) lens sample_filename]
      url resp lens sample_filename
    by simp
qed


section \<open>Properties of the searches: failures\<close>

lemma failed_response:
  assumes "request_failed caught (net url params)"
  shows "\<exists>e. (\<forall>f :: json \<Rightarrow> pyerr + 'a.
              and_then (requests_get net (JStr url) params)
                (\<lambda>resp. and_then (raise_for_status resp) (\<lambda>u. and_then (json_result resp) f))
              = Inl e)
         \<and> (caught ConnectionError \<longrightarrow> caught HTTPError \<longrightarrow> caught e)"
proof (cases "net url params")
  case Refused
  then show ?thesis by (simp add: requests_get_def)
next
  case (Answered r)
  show ?thesis
  proof (cases "400 \<le> status_code r \<and> status_code r < 600")
    case True
    with Answered show ?thesis by (simp add: requests_get_def raise_for_status_def)
  next
    case False
    with assms Answered obtain e where "json_result r = Inl e" "caught e"
      by (auto split: sum.splits)
    with Answered False show ?thesis by (simp add: requests_get_def raise_for_status_def)
  qed
qed

text \<open>
  C3, amended: for every title, author and reply, \<open>search_open_library\<close> and
  \<open>search_project_gutenberg\<close> of download\_books.py return a list and never propagate an
  exception; the list is empty when the request failed (network failure, error status,
  undecodable body) and whenever anything in the body of the \<open>try\<close> raised, a payload of
  unexpected shape included. \<open>search_google_books\<close> and \<open>search_open_library\<close> of
  get\_book\_links.py return the empty list when the request failed with a
  \<open>requests.RequestException\<close> (network failure, error status, a body whose decoding raises
  one); every other exception raised in the \<open>try\<close> propagates to the caller.
\<close>

theorem searches_recover_from_failures:
  "(\<exists>rs. fst (search_open_library net t a con) = Inr rs)
   \<and> (\<exists>rs. fst (search_project_gutenberg net t a con) = Inr rs)
   \<and> (request_failed is_Exception (net open_library_api (open_library_params t a))
        \<or> isl (open_library_try net t a)
      \<longrightarrow> fst (search_open_library net t a con) = Inr [])
   \<and> (request_failed is_Exception (net project_gutenberg_api (gutenberg_params t a))
        \<or> isl (gutenberg_try net t a)
      \<longrightarrow> fst (search_project_gutenberg net t a con) = Inr [])
   \<and> (request_failed is_RequestException (net google_books_api (google_books_params t a))
      \<longrightarrow> fst (search_google_books net t a s) = Inr [])
   \<and> (request_failed is_RequestException (net open_library_api (open_library_params_gbl t a))
      \<longrightarrow> fst (search_open_library_gbl net repr t a s) = Inr [])
   \<and> (\<forall>e. google_books_try net t a = Inl e \<and> \<not> is_RequestException e
      \<longrightarrow> fst (search_google_books net t a s) = Inl e)
   \<and> (\<forall>e. open_library_try_gbl net repr t a = Inl e \<and> \<not> is_RequestException e
      \<longrightarrow> fst (search_open_library_gbl net repr t a s) = Inl e)"
proof (intro conjI impI allI)
  show "\<exists>rs. fst (search_open_library net t a con) = Inr rs"
    by (simp add: search_open_library_def split: sum.splits)
  show "\<exists>rs. fst (search_project_gutenberg net t a con) = Inr rs"
    by (simp add: search_project_gutenberg_def split: sum.splits)
next
  assume "request_failed is_Exception (net open_library_api (open_library_params t a))
        \<or> isl (open_library_try net t a)"
  then have "isl (open_library_try net t a)"
  proof
    assume "request_failed is_Exception (net open_library_api (open_library_params t a))"
    from failed_response [where net = net and url = open_library_api, OF this]
    obtain e where "open_library_try net t a = Inl e"
      unfolding open_library_try_def by blast
    then show ?thesis by simp
  qed
  then show "fst (search_open_library net t a con) = Inr []"
    by (cases "open_library_try net t a") (simp_all add: search_open_library_def)
next
  assume "request_failed is_Exception (net project_gutenberg_api (gutenberg_params t a))
        \<or> isl (gutenberg_try net t a)"
  then have "isl (gutenberg_try net t a)"
  proof
    assume "request_failed is_Exception (net project_gutenberg_api (gutenberg_params t a))"
    from failed_response [where net = net and url = project_gutenberg_api, OF this]
    obtain e where "gutenberg_try net t a = Inl e"
      unfolding gutenberg_try_def by blast
    then show ?thesis by simp
  qed
  then show "fst (search_project_gutenberg net t a con) = Inr []"
    by (cases "gutenberg_try net t a") (simp_all add: search_project_gutenberg_def)
next
  assume "request_failed is_RequestException (net google_books_api (google_books_params t a))"
  from failed_response [where net = net and url = google_books_api, OF this]
  obtain e where "google_books_try net t a = Inl e" "is_RequestException e"
    unfolding google_books_try_def by auto
  then show "fst (search_google_books net t a s) = Inr []"
    by (simp add: search_google_books_def Let_def)
next
  assume "request_failed is_RequestException
            (net open_library_api (open_library_params_gbl t a))"
  from failed_response [where net = net and url = open_library_api, OF this]
  obtain e where "open_library_try_gbl net repr t a = Inl e" "is_RequestException e"
    unfolding open_library_try_gbl_def by auto
  then show "fst (search_open_library_gbl net repr t a s) = Inr []"
    by (simp add: search_open_library_gbl_def Let_def)
next
  fix e
  assume "google_books_try net t a = Inl e \<and> \<not> is_RequestException e"
  then show "fst (search_google_books net t a s) = Inl e"
    by (simp add: search_google_books_def Let_def)
next
  fix e
  assume "open_library_try_gbl net repr t a = Inl e \<and> \<not> is_RequestException e"
  then show "fst (search_open_library_gbl net repr t a s) = Inl e"
    by (simp add: search_open_library_gbl_def Let_def)
qed

lemma volume_without_info_raises:
  "google_books_try volume_without_info ''Emma'' ''Jane Austen'' = Inl KeyError"
  by code_simp

text \<open>
  C3, as the specification states it, fails for get\_book\_links.py: a Google Books item
  without \<open>volumeInfo\<close> makes \<open>search_google_books\<close> raise \<open>KeyError\<close>, which its
  \<open>except requests.RequestException\<close> does not catch.
\<close>

theorem search_google_books_counterexample:
  "fst (search_google_books volume_without_info ''Emma'' ''Jane Austen'' empty_session)
     = Inl KeyError"
  by code_simp


lemma docs_of_strings_raises:
  "open_library_try_gbl docs_of_strings repr_of_none ''Emma'' ''Jane Austen'' = Inl AttributeError"
  by code_simp

theorem searches_recover_from_failures_witness:
  "request_failed is_Exception (unreachable open_library_api (open_library_params ''Emma'' ''Jane Austen''))
   \<and> fst (search_open_library unreachable ''Emma'' ''Jane Austen'' empty_console) = Inr []
   \<and> request_failed is_Exception
        (unreachable project_gutenberg_api (gutenberg_params ''Emma'' ''Jane Austen''))
   \<and> fst (search_project_gutenberg unreachable ''Emma'' ''Jane Austen'' empty_console) = Inr []
   \<and> request_failed is_RequestException
        (unreachable google_books_api (google_books_params ''Emma'' ''Jane Austen''))
   \<and> fst (search_google_books unreachable ''Emma'' ''Jane Austen'' empty_session) = Inr []
   \<and> request_failed is_RequestException
        (unreachable open_library_api (open_library_params_gbl ''Emma'' ''Jane Austen''))
   \<and> fst (search_open_library_gbl unreachable repr_of_none ''Emma'' ''Jane Austen'' empty_session)
       = Inr []
   \<and> google_books_try volume_without_info ''Emma'' ''Jane Austen'' = Inl KeyError
   \<and> \<not> is_RequestException KeyError
   \<and> fst (search_google_books volume_without_info ''Emma'' ''Jane Austen'' empty_session)
       = Inl KeyError
   \<and> open_library_try_gbl docs_of_strings repr_of_none ''Emma'' ''Jane Austen'' = Inl AttributeError
   \<and> \<not> is_RequestException AttributeError
   \<and> fst (search_open_library_gbl docs_of_strings repr_of_none ''Emma'' ''Jane Austen''
        empty_session) = Inl AttributeError"
proof -
  have refused: "request_failed caught (unreachable url params)" for caught url params
    by (simp add: unreachable_def)
  show ?thesis
    using searches_recover_from_failures
        [of unreachable "''Emma''" "''Jane Austen''" empty_console empty_session repr_of_none]
      searches_recover_from_failures
        [of volume_without_info "''Emma''" "''Jane Austen''" empty_console empty_session
          repr_of_none]
      searches_recover_from_failures
        [of docs_of_strings "''Emma''" "''Jane Austen''" empty_console empty_session
          repr_of_none]
      volume_without_info_raises docs_of_strings_raises refused
    by simp
qed


section \<open>Properties of fetch\_books\<close>

lemma session_eqI:
  "printed a = printed b \<Longrightarrow> keyboard a = keyboard b \<Longrightarrow> sent a = sent b \<Longrightarrow> (a :: session) = b"
  by (cases a, cases b) simp

lemma print_books_sent: "sent (snd (print_books repr idx books s)) = sent s"
  by (induction books arbitrary: idx s) (auto simp: py_print_def split: sum.splits)

lemma search_google_books_sent:
  "sent (snd (search_google_books net b a s)) = sent s @ [(google_books_api, google_books_params b a)]"
  by (simp add: search_google_books_def Let_def send_def py_print_def split: sum.splits)

lemma search_open_library_gbl_sent:
  "sent (snd (search_open_library_gbl net repr b a s))
     = sent s @ [(open_library_api, open_library_params_gbl b a)]"
  by (simp add: search_open_library_gbl_def Let_def send_def py_print_def split: sum.splits)

lemma fetch_books_inputs:
  assumes typed: "keyboard s = line1 # line2 # rest"
  shows "fetch_books net repr s =
     (let s2 = s\<lparr>printed := printed s @
                   [welcome_message, Prompt book_name_prompt, Prompt author_name_prompt],
                 keyboard := rest\<rparr>;
          book_name = py_strip line1; author_name = py_strip line2
      in if book_name = [] \<or> author_name = [] then (Inr (), py_print both_required s2)
      else
        case search_google_books net book_name author_name
               (py_print (Print ''Fetching books from Google Books...'') s2) of
          (Inl e, s3) \<Rightarrow> (Inl e, s3)
        | (Inr google_books, s3) \<Rightarrow>
        (case search_open_library_gbl net repr book_name author_name
               (py_print (Print ''Fetching books from Open Library...'')
                 (py_print (Print (''Found '' @ str_nat (length google_books)
                                   @ '' books on Google Books.'')) s3)) of
          (Inl e, s4) \<Rightarrow> (Inl e, s4)
        | (Inr open_library_books, s4) \<Rightarrow>
            let s5 = py_print (Print (''Found '' @ str_nat (length open_library_books)
                                      @ '' books on Open Library.'')) s4;
                all_books = google_books @ open_library_books
            in if all_books = [] then (Inr (), py_print (Print ''No books found for your query.'') s5)
               else print_books repr 1 all_books
                      (py_print (Print (CHR 0x0A # ''Books found:'')) s5)))"
proof -
  have in1: "py_input book_name_prompt (py_print welcome_message s) =
      (Inr line1, s\<lparr>printed := printed s @ [welcome_message, Prompt book_name_prompt],
                    keyboard := line2 # rest\<rparr>)"
    using typed by (simp add: py_input_def py_print_def)
  have in2: "py_input author_name_prompt
      (s\<lparr>printed := printed s @ [welcome_message, Prompt book_name_prompt],
         keyboard := line2 # rest\<rparr>) =
      (Inr line2, s\<lparr>printed := printed s @
                   [welcome_message, Prompt book_name_prompt, Prompt author_name_prompt],
                 keyboard := rest\<rparr>)"
    by (simp add: py_input_def py_print_def)
  show ?thesis
    unfolding fetch_books_def in1 prod.case sum.case Let_def in2 ..
qed

lemma fetch_books_sent:
  assumes typed: "keyboard s = line1 # line2 # rest"
    and full: "py_strip line1 \<noteq> []" "py_strip line2 \<noteq> []"
  shows "\<exists>more. sent (snd (fetch_books net repr s)) =
           sent s @ (google_books_api, google_books_params (py_strip line1) (py_strip line2)) # more"
proof -
  let ?s2 = "s\<lparr>printed := printed s @
                [welcome_message, Prompt book_name_prompt, Prompt author_name_prompt],
              keyboard := rest\<rparr>"
  let ?q = "(google_books_api, google_books_params (py_strip line1) (py_strip line2))"
  obtain rg s3 where g: "search_google_books net (py_strip line1) (py_strip line2)
      (py_print (Print ''Fetching books from Google Books...'') ?s2) = (rg, s3)"
    by (cases "search_google_books net (py_strip line1) (py_strip line2)
      (py_print (Print ''Fetching books from Google Books...'') ?s2)")
  from search_google_books_sent [of net "py_strip line1" "py_strip line2"
      "py_print (Print ''Fetching books from Google Books...'') ?s2"] g
  have s3: "sent s3 = sent s @ [?q]" by (simp add: py_print_def)
  show ?thesis
  proof (cases rg)
    case (Inl e)
    with g full s3 show ?thesis
      by (simp add: fetch_books_inputs [OF typed] Let_def)
  next
    case (Inr google_books)
    let ?s4in = "py_print (Print ''Fetching books from Open Library...'')
                 (py_print (Print (''Found '' @ str_nat (length google_books)
                                   @ '' books on Google Books.'')) s3)"
    obtain ro s4 where ol: "search_open_library_gbl net repr (py_strip line1) (py_strip line2)
        ?s4in = (ro, s4)"
      by (cases "search_open_library_gbl net repr (py_strip line1) (py_strip line2) ?s4in")
    from search_open_library_gbl_sent [of net repr "py_strip line1" "py_strip line2" ?s4in] ol
    have s4: "sent s4 = sent s3 @ [(open_library_api,
        open_library_params_gbl (py_strip line1) (py_strip line2))]"
      by (simp add: py_print_def)
    show ?thesis
    proof (cases ro)
      case (Inl e)
      with g Inr ol full s3 s4 show ?thesis
        by (simp add: fetch_books_inputs [OF typed] Let_def)
    next
      case inner: (Inr open_library_books)
      with g Inr ol full s3 s4 show ?thesis
        by (simp add: fetch_books_inputs [OF typed] Let_def print_books_sent py_print_def)
    qed
  qed
qed

text \<open>
  C10: in get\_book\_links.py, when the book name or the author name that was entered is
  empty after stripping whitespace, \<open>fetch_books\<close> prints the message and returns, and no
  request has been sent: no search function was called. (Each search function records its
  request before anything else; with two non-empty names the first request recorded is
  the one to Google Books.)
\<close>

theorem fetch_books_requires_both_names:
  assumes typed: "keyboard s = line1 # line2 # rest"
  shows "(py_strip line1 = [] \<or> py_strip line2 = [] \<longrightarrow>
            fetch_books net repr s =
              (Inr (),
               s\<lparr>printed := printed s @
                     [welcome_message, Prompt book_name_prompt,
                      Prompt author_name_prompt, both_required],
                 keyboard := rest\<rparr>)
            \<and> sent (snd (fetch_books net repr s)) = sent s)
       \<and> (py_strip line1 \<noteq> [] \<and> py_strip line2 \<noteq> [] \<longrightarrow>
            take (Suc (length (sent s))) (sent (snd (fetch_books net repr s))) =
              sent s @ [(google_books_api, google_books_params (py_strip line1) (py_strip line2))])"
proof (intro conjI impI)
  let ?s2 = "s\<lparr>printed := printed s @
                [welcome_message, Prompt book_name_prompt, Prompt author_name_prompt],
              keyboard := rest\<rparr>"
  {
    assume empty: "py_strip line1 = [] \<or> py_strip line2 = []"
    then have run: "fetch_books net repr s = (Inr (), py_print both_required ?s2)"
      by (auto simp add: fetch_books_inputs [OF typed] Let_def)
    also have "py_print both_required ?s2 =
        s\<lparr>printed := printed s @
              [welcome_message, Prompt book_name_prompt,
               Prompt author_name_prompt, both_required],
          keyboard := rest\<rparr>"
      by (intro session_eqI) (simp_all add: py_print_def)
    finally show "fetch_books net repr s =
              (Inr (),
               s\<lparr>printed := printed s @
                     [welcome_message, Prompt book_name_prompt,
                      Prompt author_name_prompt, both_required],
                 keyboard := rest\<rparr>)" .
    from run show "sent (snd (fetch_books net repr s)) = sent s"
      by (simp add: py_print_def)
  }
  {
    assume "py_strip line1 \<noteq> [] \<and> py_strip line2 \<noteq> []"
    then obtain more where "sent (snd (fetch_books net repr s)) =
        sent s @ (google_books_api, google_books_params (py_strip line1) (py_strip line2)) # more"
      using fetch_books_sent [OF typed, of net repr] by blast
    then show "take (Suc (length (sent s))) (sent (snd (fetch_books net repr s))) =
              sent s @ [(google_books_api, google_books_params (py_strip line1) (py_strip line2))]"
      by simp
  }
qed


theorem fetch_books_requires_both_names_witness:
  "keyboard (empty_session\<lparr>keyboard := [''  '', ''Jane Austen'']\<rparr>) = [''  '', ''Jane Austen'']
   \<and> py_strip ''  '' = []
   \<and> fetch_books google_emma repr_of_none (empty_session\<lparr>keyboard := [''  '', ''Jane Austen'']\<rparr>) =
       (Inr (),
        empty_session\<lparr>keyboard := [''  '', ''Jane Austen'']\<rparr>
          \<lparr>printed := printed (empty_session\<lparr>keyboard := [''  '', ''Jane Austen'']\<rparr>) @
              [welcome_message, Prompt book_name_prompt, Prompt author_name_prompt, both_required],
           keyboard := []\<rparr>)
   \<and> sent (snd (fetch_books google_emma repr_of_none
          (empty_session\<lparr>keyboard := [''  '', ''Jane Austen'']\<rparr>))) = []
   \<and> py_strip ''Emma '' = ''Emma''
   \<and> py_strip ''Jane Austen'' = ''Jane Austen''
   \<and> take (Suc 0) (sent (snd (fetch_books google_emma repr_of_none
          (empty_session\<lparr>keyboard := [''Emma '', ''Jane Austen'']\<rparr>)))) =
       [(google_books_api, google_books_params ''Emma'' ''Jane Austen'')]"
proof -
  have strips: "py_strip ''  '' = []" "py_strip ''Emma '' = ''Emma''"
    "py_strip ''Jane Austen'' = ''Jane Austen''"
    by code_simp+
  have k1: "keyboard (empty_session\<lparr>keyboard := [''  '', ''Jane Austen'']\<rparr>)
      = ''  '' # ''Jane Austen'' # []"
    and k2: "keyboard (empty_session\<lparr>keyboard := [''Emma '', ''Jane Austen'']\<rparr>)
      = ''Emma '' # ''Jane Austen'' # []"
    by simp_all
  show ?thesis
    using fetch_books_requires_both_names [OF k1, of google_emma repr_of_none]
      fetch_books_requires_both_names [OF k2, of google_emma repr_of_none]
      strips
    by (simp add: empty_session_def)
qed


section \<open>Properties of the searches: formats and authors\<close>

lemma try_success:
  assumes "and_then (requests_get net (JStr url) params) (\<lambda>resp.
           and_then (raise_for_status resp) (\<lambda>u.
           and_then (json_result resp) (\<lambda>data.
           and_then (dict_get data key (JArr [])) (\<lambda>v.
           and_then (py_iter v) f)))) = Inr rs"
  shows "f (payload_entries key (net url params)) = Inr rs"
proof -
  from assms obtain resp data v xs where
    get: "requests_get net (JStr url) params = Inr resp"
    and st: "raise_for_status resp = Inr ()"
    and js: "json_result resp = Inr data"
    and dg: "dict_get data key (JArr []) = Inr v"
    and it: "py_iter v = Inr xs"
    and f: "f xs = Inr rs"
    by (auto simp: and_then_Inr_iff)
  from get have reply: "net url params = Answered resp"
    by (auto simp: requests_get_def split: reply.splits)
  from st have "\<not> (400 \<le> status_code resp \<and> status_code resp < 600)"
    by (auto simp: raise_for_status_def split: if_splits)
  with reply js have "payload (net url params) = Some data" by simp
  with dg it have "payload_entries key (net url params) = xs"
    by (simp add: payload_entries_def entries_def)
  with f show ?thesis by simp
qed

lemma open_library_result_hit:
  "open_library_result doc (JStr u) (py_lower u) = Inr r \<Longrightarrow> hit r = (JStr u, url_label (JStr u))"
  by (auto simp: open_library_result_def and_then_Inr_iff hit_def url_label_def format_label_def)

lemma open_library_formats_hits:
  "open_library_formats doc fmts acc = Inr rs \<Longrightarrow>
   map hit rs = map hit acc @ map (\<lambda>v. (v, url_label v)) (filter url_names_format fmts)"
proof (induction fmts arbitrary: acc)
  case Nil
  then show ?case by simp
next
  case (Cons fmt fmts)
  from Cons.prems obtain lowered where low: "lower_method fmt = Inr lowered"
    by (auto simp: and_then_Inr_iff)
  then obtain u where u: "fmt = JStr u" "lowered = py_lower u"
    by (cases fmt) auto
  show ?case
  proof (cases "url_names_format fmt")
    case True
    with u Cons.prems obtain r where r: "open_library_result doc (JStr u) (py_lower u) = Inr r"
      and rest: "open_library_formats doc fmts (acc @ [r]) = Inr rs"
      by (auto simp: and_then_Inr_iff url_names_format_def names_format_def)
    from Cons.IH [OF rest] open_library_result_hit [OF r] True u show ?thesis by simp
  next
    case False
    with u Cons.prems have "open_library_formats doc fmts acc = Inr rs"
      by (auto simp: url_names_format_def names_format_def)
    from Cons.IH [OF this] False show ?thesis by simp
  qed
qed

lemma open_library_docs_hits:
  "open_library_docs docs acc = Inr rs \<Longrightarrow>
   map hit rs = map hit acc @
     map (\<lambda>v. (v, url_label v)) (filter url_names_format (concat (map (entries ''formats'') docs)))"
proof (induction docs arbitrary: acc)
  case Nil
  then show ?case by simp
next
  case (Cons doc docs)
  from Cons.prems obtain formats fmts mid where
    f: "dict_get doc ''formats'' (JArr []) = Inr formats" "py_iter formats = Inr fmts"
    and inner: "open_library_formats doc fmts acc = Inr mid"
    and rest: "open_library_docs docs mid = Inr rs"
    by (auto simp: and_then_Inr_iff)
  from f have "entries ''formats'' doc = fmts" by (simp add: entries_def)
  with Cons.IH [OF rest] open_library_formats_hits [OF inner] show ?case by simp
qed

lemma gutenberg_result_hit:
  "gutenberg_result book k u (py_lower k) = Inr r \<Longrightarrow> hit r = (u, format_label ''pdf'' k)"
  by (auto simp: gutenberg_result_def and_then_Inr_iff hit_def format_label_def)

lemma gutenberg_formats_hits:
  "gutenberg_formats book fmts acc = Inr rs \<Longrightarrow>
   map hit rs = map hit acc @
     map (\<lambda>(k, u). (u, format_label ''pdf'' k))
       (filter (\<lambda>(k, u). names_format ''pdf'' ''epub'' k) fmts)"
proof (induction fmts arbitrary: acc)
  case Nil
  then show ?case by simp
next
  case (Cons item fmts)
  obtain k u where item: "item = (k, u)" by (cases item)
  show ?case
  proof (cases "names_format ''pdf'' ''epub'' k")
    case True
    with item Cons.prems obtain r where r: "gutenberg_result book k u (py_lower k) = Inr r"
      and rest: "gutenberg_formats book fmts (acc @ [r]) = Inr rs"
      by (auto simp: and_then_Inr_iff names_format_def Let_def)
    from Cons.IH [OF rest] gutenberg_result_hit [OF r] True item show ?thesis by simp
  next
    case False
    with item Cons.prems have "gutenberg_formats book fmts acc = Inr rs"
      by (auto simp: names_format_def Let_def)
    from Cons.IH [OF this] False item show ?thesis by simp
  qed
qed

lemma gutenberg_books_hits:
  "gutenberg_books books acc = Inr rs \<Longrightarrow>
   map hit rs = map hit acc @
     map (\<lambda>(k, u). (u, format_label ''pdf'' k))
       (filter (\<lambda>(k, u). names_format ''pdf'' ''epub'' k)
         (concat (map (\<lambda>book. case dict_get book ''formats'' (JObj []) of
                            Inr (JObj fmts) \<Rightarrow> fmts
                          | _ \<Rightarrow> []) books)))"
proof (induction books arbitrary: acc)
  case Nil
  then show ?case by simp
next
  case (Cons book books)
  from Cons.prems obtain formats fmts mid where
    f: "dict_get book ''formats'' (JObj []) = Inr formats" "items_method formats = Inr fmts"
    and inner: "gutenberg_formats book fmts acc = Inr mid"
    and rest: "gutenberg_books books mid = Inr rs"
    by (auto simp: and_then_Inr_iff)
  from f(2) have "formats = JObj fmts" by (cases formats) auto
  with f have "(case dict_get book ''formats'' (JObj []) of Inr (JObj fmts) \<Rightarrow> fmts | _ \<Rightarrow> []) = fmts"
    by simp
  with Cons.IH [OF rest] gutenberg_formats_hits [OF inner] show ?case by simp
qed

lemma comprehension_length: "comprehension f xs = Inr ys \<Longrightarrow> length ys = length xs"
  by (induction xs arbitrary: ys) (auto simp: and_then_Inr_iff)

lemma found_or_nothing:
  "fst (search_open_library net t a con) = Inr rs \<Longrightarrow> rs = [] \<or> open_library_try net t a = Inr rs"
  "fst (search_project_gutenberg net t a con) = Inr rs \<Longrightarrow> rs = [] \<or> gutenberg_try net t a = Inr rs"
  by (auto simp: search_open_library_def search_project_gutenberg_def split: sum.splits)

text \<open>
  C4, amended: the two searches of download\_books.py convert exactly the entries that
  name a PDF or EPUB format, by a substring match in lower case (\<open>.pdf\<close> or \<open>.epub\<close> in
  the format URL for OpenLibrary, \<open>pdf\<close> or \<open>epub\<close> in the format name for Project
  Gutenberg), label them accordingly, and drop every other format: when the body of the
  \<open>try\<close> succeeds the results are, in order, the matching formats of the payload, and
  every result a search returns comes from a matching format. The two searches of
  get\_book\_links.py have no format filter: they convert every entry of the response.
\<close>

theorem searches_filter_formats:
  "(open_library_try net t a = Inr rs \<longrightarrow>
      map hit rs =
        map (\<lambda>v. (v, url_label v))
          (filter url_names_format
            (open_library_formats_of (net open_library_api (open_library_params t a)))))
   \<and> (fst (search_open_library net t a con) = Inr rs \<longrightarrow>
      (\<forall>r \<in> set rs.
         download_url r \<in> set (open_library_formats_of (net open_library_api (open_library_params t a)))
         \<and> url_names_format (download_url r) \<and> format r = url_label (download_url r)))
   \<and> (gutenberg_try net t a = Inr rs \<longrightarrow>
      map hit rs =
        map (\<lambda>(k, u). (u, format_label ''pdf'' k))
          (filter (\<lambda>(k, u). names_format ''pdf'' ''epub'' k)
            (gutenberg_formats_of (net project_gutenberg_api (gutenberg_params t a)))))
   \<and> (fst (search_project_gutenberg net t a con) = Inr rs \<longrightarrow>
      (\<forall>r \<in> set rs. \<exists>k.
         (k, download_url r) \<in> set (gutenberg_formats_of (net project_gutenberg_api (gutenberg_params t a)))
         \<and> names_format ''pdf'' ''epub'' k \<and> format r = format_label ''pdf'' k))
   \<and> (google_books_try net t a = Inr books \<longrightarrow>
      length books = length (payload_entries ''items'' (net google_books_api (google_books_params t a))))
   \<and> (open_library_try_gbl net repr t a = Inr books \<longrightarrow>
      length books =
        length (payload_entries ''docs'' (net open_library_api (open_library_params_gbl t a))))"
proof -
  let ?ol = "open_library_formats_of (net open_library_api (open_library_params t a))"
  let ?pg = "gutenberg_formats_of (net project_gutenberg_api (gutenberg_params t a))"
  have ol: "map hit rs = map (\<lambda>v. (v, url_label v)) (filter url_names_format ?ol)"
    if "open_library_try net t a = Inr rs" for rs
  proof -
    from that have "open_library_docs
        (payload_entries ''docs'' (net open_library_api (open_library_params t a))) [] = Inr rs"
      unfolding open_library_try_def by (rule try_success)
    from open_library_docs_hits [OF this] show ?thesis
      by (simp add: open_library_formats_of_def)
  qed
  have pg: "map hit rs = map (\<lambda>(k, u). (u, format_label ''pdf'' k))
          (filter (\<lambda>(k, u). names_format ''pdf'' ''epub'' k) ?pg)"
    if "gutenberg_try net t a = Inr rs" for rs
  proof -
    from that have "gutenberg_books
        (payload_entries ''results'' (net project_gutenberg_api (gutenberg_params t a))) [] = Inr rs"
      unfolding gutenberg_try_def by (rule try_success)
    from gutenberg_books_hits [OF this] show ?thesis
      by (simp add: gutenberg_formats_of_def)
  qed
  have ol_only: "download_url r \<in> set ?ol \<and> url_names_format (download_url r)
      \<and> format r = url_label (download_url r)"
    if "fst (search_open_library net t a con) = Inr rs" "r \<in> set rs" for r
  proof -
    from that found_or_nothing(1) have "open_library_try net t a = Inr rs" by fastforce
    from ol [OF this] that(2)
    have "hit r \<in> set (map (\<lambda>v. (v, url_label v)) (filter url_names_format ?ol))"
      by (metis image_eqI set_map)
    then show ?thesis by (auto simp: hit_def)
  qed
  have pg_only: "\<exists>k. (k, download_url r) \<in> set ?pg
      \<and> names_format ''pdf'' ''epub'' k \<and> format r = format_label ''pdf'' k"
    if "fst (search_project_gutenberg net t a con) = Inr rs" "r \<in> set rs" for r
  proof -
    from that found_or_nothing(2) have "gutenberg_try net t a = Inr rs" by fastforce
    from pg [OF this] that(2)
    have "hit r \<in> set (map (\<lambda>(k, u). (u, format_label ''pdf'' k))
          (filter (\<lambda>(k, u). names_format ''pdf'' ''epub'' k) ?pg))"
      by (metis image_eqI set_map)
    then show ?thesis by (auto simp: hit_def)
  qed
  have gb: "length books = length (payload_entries ''items''
        (net google_books_api (google_books_params t a)))"
    if "google_books_try net t a = Inr books"
  proof -
    from that have "comprehension google_books_entry
        (payload_entries ''items'' (net google_books_api (google_books_params t a))) = Inr books"
      unfolding google_books_try_def by (rule try_success)
    then show ?thesis by (rule comprehension_length)
  qed
  have olg: "length books = length (payload_entries ''docs''
        (net open_library_api (open_library_params_gbl t a)))"
    if "open_library_try_gbl net repr t a = Inr books"
  proof -
    from that have "comprehension (open_library_entry repr)
        (payload_entries ''docs'' (net open_library_api (open_library_params_gbl t a))) = Inr books"
      unfolding open_library_try_gbl_def by (rule try_success)
    then show ?thesis by (rule comprehension_length)
  qed
  from ol pg ol_only pg_only gb olg show ?thesis by blast
qed

lemma open_library_pride_try:
  "open_library_try open_library_pride ''Pride and Prejudice'' ''Jane Austen''
     = Inr [pride_pdf, pride_epub]"
  by code_simp

lemma gutendex_pride_try:
  "gutenberg_try gutendex_pride ''Pride and Prejudice'' ''Jane Austen'' = Inr [pride_gutenberg]"
  by code_simp

lemma google_emma_try:
  "google_books_try google_emma ''Emma'' ''Jane Austen'' =
     Inr [JObj [(''title'', JStr ''Emma''), (''authors'', JArr [JStr ''Jane Austen'']),
                (''download_link'', JStr ''http://play.google.com/books/reader?id=emma'')]]"
  by code_simp

lemma open_library_pride_try_gbl:
  "open_library_try_gbl open_library_pride repr_of_none ''Pride and Prejudice'' ''Jane Austen'' =
     Inr [JObj [(''title'', JStr ''Pride and Prejudice''),
                (''authors'', JArr [JStr ''Jane Austen'', JStr ''Anna Quindlen'']),
                (''download_link'', JStr ''https://openlibrary.org/works/OL66554W'')]]"
  by code_simp

text \<open>
  C4, as the specification states it, fails for get\_book\_links.py: \<open>search_google_books\<close>
  converts an item in which nothing names a PDF or EPUB format.
\<close>

theorem search_google_books_no_filter_counterexample:
  "fst (search_google_books google_emma ''Emma'' ''Jane Austen'' empty_session) =
     Inr [JObj [(''title'', JStr ''Emma''), (''authors'', JArr [JStr ''Jane Austen'']),
                (''download_link'', JStr ''http://play.google.com/books/reader?id=emma'')]]
   \<and> \<not> names_format ''pdf'' ''epub'' ''http://play.google.com/books/reader?id=emma''
   \<and> \<not> names_format ''pdf'' ''epub'' ''Emma''"
  by code_simp

theorem searches_filter_formats_witness:
  "open_library_try open_library_pride ''Pride and Prejudice'' ''Jane Austen''
     = Inr [pride_pdf, pride_epub]
   \<and> map hit [pride_pdf, pride_epub] =
        map (\<lambda>v. (v, url_label v))
          (filter url_names_format
            (open_library_formats_of (open_library_pride open_library_api
               (open_library_params ''Pride and Prejudice'' ''Jane Austen''))))
   \<and> fst (search_open_library open_library_pride ''Pride and Prejudice'' ''Jane Austen''
         empty_console) = Inr [pride_pdf, pride_epub]
   \<and> download_url pride_pdf \<in> set (open_library_formats_of (open_library_pride open_library_api
               (open_library_params ''Pride and Prejudice'' ''Jane Austen'')))
   \<and> url_names_format (download_url pride_pdf)
   \<and> format pride_pdf = url_label (download_url pride_pdf)
   \<and> gutenberg_try gutendex_pride ''Pride and Prejudice'' ''Jane Austen'' = Inr [pride_gutenberg]
   \<and> map hit [pride_gutenberg] =
        map (\<lambda>(k, u). (u, format_label ''pdf'' k))
          (filter (\<lambda>(k, u). names_format ''pdf'' ''epub'' k)
            (gutenberg_formats_of (gutendex_pride project_gutenberg_api
               (gutenberg_params ''Pride and Prejudice'' ''Jane Austen''))))
   \<and> fst (search_project_gutenberg gutendex_pride ''Pride and Prejudice'' ''Jane Austen''
         empty_console) = Inr [pride_gutenberg]
   \<and> (\<exists>k. (k, download_url pride_gutenberg) \<in> set (gutenberg_formats_of
               (gutendex_pride project_gutenberg_api
                 (gutenberg_params ''Pride and Prejudice'' ''Jane Austen'')))
         \<and> names_format ''pdf'' ''epub'' k \<and> format pride_gutenberg = format_label ''pdf'' k)
   \<and> length [JObj [(''title'', JStr ''Emma''), (''authors'', JArr [JStr ''Jane Austen'']),
                (''download_link'', JStr ''http://play.google.com/books/reader?id=emma'')]] =
       length (payload_entries ''items'' (google_emma google_books_api
                 (google_books_params ''Emma'' ''Jane Austen'')))
   \<and> length [JObj [(''title'', JStr ''Pride and Prejudice''),
                (''authors'', JArr [JStr ''Jane Austen'', JStr ''Anna Quindlen'']),
                (''download_link'', JStr ''https://openlibrary.org/works/OL66554W'')]] =
       length (payload_entries ''docs'' (open_library_pride open_library_api
                 (open_library_params_gbl ''Pride and Prejudice'' ''Jane Austen'')))"
proof -
  have ol: "fst (search_open_library open_library_pride ''Pride and Prejudice'' ''Jane Austen''
         empty_console) = Inr [pride_pdf, pride_epub]"
    by (simp add: search_open_library_def open_library_pride_try)
  have pg: "fst (search_project_gutenberg gutendex_pride ''Pride and Prejudice'' ''Jane Austen''
         empty_console) = Inr [pride_gutenberg]"
    by (simp add: search_project_gutenberg_def gutendex_pride_try)
  note a = searches_filter_formats [of open_library_pride "''Pride and Prejudice''"
      "''Jane Austen''" "[pride_pdf, pride_epub]" empty_console _ repr_of_none]
  note b = searches_filter_formats [of gutendex_pride "''Pride and Prejudice''"
      "''Jane Austen''" "[pride_gutenberg]" empty_console _ repr_of_none]
  note c = searches_filter_formats [of google_emma "''Emma''" "''Jane Austen''" _ _
      "[JObj [(''title'', JStr ''Emma''), (''authors'', JArr [JStr ''Jane Austen'']),
                (''download_link'', JStr ''http://play.google.com/books/reader?id=emma'')]]"
      repr_of_none]
  note d = searches_filter_formats [of open_library_pride "''Pride and Prejudice''"
      "''Jane Austen''" _ _
      "[JObj [(''title'', JStr ''Pride and Prejudice''),
                (''authors'', JArr [JStr ''Jane Austen'', JStr ''Anna Quindlen'']),
                (''download_link'', JStr ''https://openlibrary.org/works/OL66554W'')]]"
      repr_of_none]
  have in1: "pride_pdf \<in> set [pride_pdf, pride_epub]" and in2: "pride_gutenberg \<in> set [pride_gutenberg]"
    by simp_all
  from a ol open_library_pride_try in1
  have w1: "map hit [pride_pdf, pride_epub] =
        map (\<lambda>v. (v, url_label v))
          (filter url_names_format
            (open_library_formats_of (open_library_pride open_library_api
               (open_library_params ''Pride and Prejudice'' ''Jane Austen''))))"
    and w2: "download_url pride_pdf \<in> set (open_library_formats_of (open_library_pride open_library_api
               (open_library_params ''Pride and Prejudice'' ''Jane Austen'')))
      \<and> url_names_format (download_url pride_pdf)
      \<and> format pride_pdf = url_label (download_url pride_pdf)"
    by blast+
  from b pg gutendex_pride_try in2
  have w3: "map hit [pride_gutenberg] =
        map (\<lambda>(k, u). (u, format_label ''pdf'' k))
          (filter (\<lambda>(k, u). names_format ''pdf'' ''epub'' k)
            (gutenberg_formats_of (gutendex_pride project_gutenberg_api
               (gutenberg_params ''Pride and Prejudice'' ''Jane Austen''))))"
    and w4: "\<exists>k. (k, download_url pride_gutenberg) \<in> set (gutenberg_formats_of
               (gutendex_pride project_gutenberg_api
                 (gutenberg_params ''Pride and Prejudice'' ''Jane Austen'')))
         \<and> names_format ''pdf'' ''epub'' k \<and> format pride_gutenberg = format_label ''pdf'' k"
    by blast+
  from c google_emma_try
  have w5: "length [JObj [(''title'', JStr ''Emma''), (''authors'', JArr [JStr ''Jane Austen'']),
                (''download_link'', JStr ''http://play.google.com/books/reader?id=emma'')]] =
       length (payload_entries ''items'' (google_emma google_books_api
                 (google_books_params ''Emma'' ''Jane Austen'')))"
    by blast
  from d open_library_pride_try_gbl
  have w6: "length [JObj [(''title'', JStr ''Pride and Prejudice''),
                (''authors'', JArr [JStr ''Jane Austen'', JStr ''Anna Quindlen'']),
                (''download_link'', JStr ''https://openlibrary.org/works/OL66554W'')]] =
       length (payload_entries ''docs'' (open_library_pride open_library_api
                 (open_library_params_gbl ''Pride and Prejudice'' ''Jane Austen'')))"
    by blast
  from open_library_pride_try w1 ol w2 gutendex_pride_try w3 pg w4 w5 w6
  show ?thesis by blast
qed


lemma str_parts_strings: "str_parts (map JStr names) = Inr names"
  by (induction names) simp_all

lemma str_parts_chars: "str_parts (map (\<lambda>c. JStr [c]) s) = Inr (map (\<lambda>c. [c]) s)"
  by (induction s) simp_all

lemma open_library_author:
  assumes "open_library_result (JObj kvs) fmt lowered = Inr r"
  shows "map_of kvs ''author_name'' = Some (JArr (map JStr names)) \<Longrightarrow> author r = join '', '' names"
    and "map_of kvs ''author_name'' = None \<Longrightarrow> author r = ''Unknown''"
  using assms
  by (auto simp: open_library_result_def py_join_def str_parts_strings)

lemma gutenberg_author:
  assumes "gutenberg_result (JObj kvs) fmt_type url lowered = Inr r"
  shows "map_of kvs ''authors'' = Some (JArr (JObj [(''name'', JStr name)] # others))
           \<Longrightarrow> author r = join '', '' (map (\<lambda>c. [c]) name)"
    and "map_of kvs ''authors'' = None \<Longrightarrow> author r = ''U, n, k, n, o, w, n''"
  using assms
  by (auto simp: gutenberg_result_def py_join_def str_parts_chars)


text \<open>
  C5 asks for the author field to be the author names joined by commas, \<open>Jane Austen\<close>
  for the Gutendex authors \<open>[{"name": "Jane Austen"}]\<close>. \<open>search_open_library\<close> does
  that (\<open>open_library_author\<close>). \<open>search_project_gutenberg\<close> applies \<open>join\<close> to the
  name of the first author, a string, and so joins its characters
  (\<open>gutenberg_author\<close>): on the entry of the claim the author field is
  \<open>J, a, n, e,  , A, u, s, t, e, n\<close>.
\<close>

theorem gutenberg_author_joins_characters:
  "fst (search_project_gutenberg gutendex_pride ''Pride and Prejudice'' ''Jane Austen''
        empty_console) =
     Inr [\<lparr>title = JStr ''Pride and Prejudice'', author = ''J, a, n, e,  , A, u, s, t, e, n'',
           format = ''EPUB'', source = ''Project Gutenberg'',
           download_url = JStr ''https://www.gutenberg.org/ebooks/1342.epub3.images'',
           file_size = None\<rparr>]
   \<and> ''J, a, n, e,  , A, u, s, t, e, n'' \<noteq> ''Jane Austen''"
  by code_simp

end
